theory Spec2Isabelle
  imports Complex_Main "HOL-Library.Sublist" "HOL-Library.List_Lexorder" "HOL-Library.Multiset"
    "HOL-Library.AList"
begin

section \<open>Python values\<close>

text \<open>
  A Python \<^verbatim>\<open>str\<close> is a sequence of Unicode code points, so a string is a list of
  integers; \<open>U\<close> turns an ASCII literal into that form. The source uses five
  code points beyond ASCII, written out as numbers below.
\<close>

type_synonym pystr = "int list"

definition U :: "string \<Rightarrow> pystr" where
  "U s = map of_char s"

definition quote :: int where
  "quote = 39"

definition sub0 :: int where
  "sub0 = 8320"

definition sub1 :: int where
  "sub1 = 8321"

definition e_acute :: int where
  "e_acute = 233"

definition rsquo :: int where
  "rsquo = 8217"

definition em_dash :: int where
  "em_dash = 8212"

text \<open>
  A float is a real number or NaN. Every comparison with NaN is false, as in Python.
  Infinities are not represented: a division by zero on a numpy float gives NaN here.
\<close>

datatype pyfloat = NaN | Fin real

fun fgt :: "pyfloat \<Rightarrow> real \<Rightarrow> bool" where
  "fgt NaN c = False"
| "fgt (Fin x) c = (x > c)"

fun flt :: "pyfloat \<Rightarrow> real \<Rightarrow> bool" where
  "flt NaN c = False"
| "flt (Fin x) c = (x < c)"

fun fabs :: "pyfloat \<Rightarrow> pyfloat" where
  "fabs NaN = NaN"
| "fabs (Fin x) = Fin \<bar>x\<bar>"

fun fadd :: "pyfloat \<Rightarrow> pyfloat \<Rightarrow> pyfloat" where
  "fadd (Fin x) (Fin y) = Fin (x + y)"
| "fadd _ _ = NaN"

fun fsub :: "pyfloat \<Rightarrow> pyfloat \<Rightarrow> pyfloat" where
  "fsub (Fin x) (Fin y) = Fin (x - y)"
| "fsub _ _ = NaN"

fun fmul :: "pyfloat \<Rightarrow> pyfloat \<Rightarrow> pyfloat" where
  "fmul (Fin x) (Fin y) = Fin (x * y)"
| "fmul _ _ = NaN"

fun fdiv :: "pyfloat \<Rightarrow> pyfloat \<Rightarrow> pyfloat" where
  "fdiv (Fin x) (Fin y) = (if y = 0 then NaN else Fin (x / y))"
| "fdiv _ _ = NaN"

text \<open>Exceptions are values; \<open>Inl\<close> of a sum is a raised exception.\<close>

datatype error = KeyError pystr | ValueError pystr | TypeError pystr

text \<open>
  The values stored in the dict a hypothesis test returns. A dict is an association
  list in insertion order; \<open>dict_get\<close> is \<^verbatim>\<open>d.get(key, default)\<close>.
\<close>

datatype pyval = VStr pystr | VFloat pyfloat | VTuple pystr pystr | VNone

type_synonym pydict = "(pystr \<times> pyval) list"

definition dict_get :: "pydict \<Rightarrow> pystr \<Rightarrow> pyval \<Rightarrow> pyval" where
  "dict_get d k dflt = (case map_of d k of None \<Rightarrow> dflt | Some v \<Rightarrow> v)"

text \<open>A test function returns either a message string or a result dict.\<close>

datatype outcome = Message pystr | Result pydict

section \<open>The table\<close>

text \<open>
  The dtype families the source asks about: \<^verbatim>\<open>select_dtypes(include=['number'])\<close> takes
  \<open>Number\<close> only, \<^verbatim>\<open>is_numeric_dtype\<close> also accepts \<open>Boolean\<close>;
  \<^verbatim>\<open>['object', 'category']\<close> and \<^verbatim>\<open>['datetime', 'datetimetz']\<close> are the other two
  selections. A column of dtype category carries its categories in their order;
  they are distinct, and every value of the column is one of them. A DataFrame is
  the ordered list of its named columns.
\<close>

datatype dtype = Number | Boolean | Object | Category | Datetime | OtherDtype

datatype cell = NA | Num real | Flag bool | Str pystr | Stamp int

record column =
  dtype :: dtype
  cells :: "cell list"
  categories :: "cell list"

type_synonym dataframe = "(pystr \<times> column) list"

definition getitem :: "dataframe \<Rightarrow> pystr \<Rightarrow> error + column" where
  "getitem df c = (case map_of df c of None \<Rightarrow> Inl (KeyError c) | Some col \<Rightarrow> Inr col)"

definition is_numeric_dtype :: "dtype \<Rightarrow> bool" where
  "is_numeric_dtype t = (t = Number \<or> t = Boolean)"

definition is_categorical_dtype :: "dtype \<Rightarrow> bool" where
  "is_categorical_dtype t = (t = Category)"

fun num_of :: "cell \<Rightarrow> real option" where
  "num_of (Num x) = Some x"
| "num_of (Flag b) = Some (of_bool b)"
| "num_of _ = None"

text \<open>\<^verbatim>\<open>series.dropna()\<close> of a numeric column: its values without the missing ones.\<close>

definition dropna :: "cell list \<Rightarrow> real list" where
  "dropna cs = List.map_filter num_of cs"

text \<open>The values of a column that are not missing.\<close>

definition present :: "cell list \<Rightarrow> cell list" where
  "present cs = filter (\<lambda>c. c \<noteq> NA) cs"

definition len_df :: "dataframe \<Rightarrow> nat" where
  "len_df df = (case df of [] \<Rightarrow> 0 | (_, c) # _ \<Rightarrow> length (cells c))"

section \<open>The libraries\<close>

text \<open>
  scipy, pandas and the Python runtime are not part of the repository. What the
  source takes from them is a parameter \<open>L\<close> of every function below: the statistics
  (whose floating-point values no theorem here depends on), the random subsample
  (a function of the series, as under a fixed seed), the ascending order of the
  values of an object column, number formatting, and the Unicode tables for
  strings beyond ASCII.
\<close>

record lib =
  str_lower :: "pystr \<Rightarrow> pystr"
  str_upper :: "pystr \<Rightarrow> pystr"
  uni_word :: "int \<Rightarrow> bool"
  str_repr :: "pystr \<Rightarrow> pystr"
  str_val :: "pyval \<Rightarrow> pystr"
  format_f :: "nat \<Rightarrow> pyfloat \<Rightarrow> pystr"
  np_sqrt :: "pyfloat \<Rightarrow> pyfloat"
  pd_sort :: "cell list \<Rightarrow> cell list"
  bool_quantile_message :: pystr
  pd_sample :: "nat \<Rightarrow> real list \<Rightarrow> real list"
  pd_mean :: "real list \<Rightarrow> pyfloat"
  pd_std :: "real list \<Rightarrow> pyfloat"
  pd_skew :: "real list \<Rightarrow> pyfloat"
  pd_kurtosis :: "real list \<Rightarrow> pyfloat"
  pd_quantile :: "real \<Rightarrow> real list \<Rightarrow> pyfloat"
  pd_corr :: "pystr \<Rightarrow> cell list \<Rightarrow> cell list \<Rightarrow> pyfloat"
  sp_shapiro :: "real list \<Rightarrow> pyfloat"
  sp_ttest_ind :: "real list \<Rightarrow> real list \<Rightarrow> error + pyfloat \<times> pyfloat"
  sp_mannwhitneyu :: "real list \<Rightarrow> real list \<Rightarrow> error + pyfloat \<times> pyfloat"
  sp_f_oneway :: "real list list \<Rightarrow> error + pyfloat \<times> pyfloat"
  sp_kruskal :: "real list list \<Rightarrow> error + pyfloat \<times> pyfloat"
  sp_chi2 :: "nat list list \<Rightarrow> error + pyfloat \<times> pyfloat"
  sp_pearson :: "real list \<Rightarrow> real list \<Rightarrow> error + pyfloat \<times> pyfloat"
  sp_spearman :: "real list \<Rightarrow> real list \<Rightarrow> error + pyfloat \<times> pyfloat"

section \<open>Strings\<close>

definition is_ascii :: "pystr \<Rightarrow> bool" where
  "is_ascii s = list_all (\<lambda>c. c < 128) s"

definition ascii_lower :: "int \<Rightarrow> int" where
  "ascii_lower c = (if 65 \<le> c \<and> c \<le> 90 then c + 32 else c)"

definition ascii_upper :: "int \<Rightarrow> int" where
  "ascii_upper c = (if 97 \<le> c \<and> c \<le> 122 then c - 32 else c)"

text \<open>
  \<^verbatim>\<open>s.lower()\<close> and \<^verbatim>\<open>s.upper()\<close>: letter by letter on an ASCII string, the Unicode
  case mapping of the runtime otherwise.
\<close>

definition py_lower :: "lib \<Rightarrow> pystr \<Rightarrow> pystr" where
  "py_lower L s = (if is_ascii s then map ascii_lower s else str_lower L s)"

definition py_upper :: "lib \<Rightarrow> pystr \<Rightarrow> pystr" where
  "py_upper L s = (if is_ascii s then map ascii_upper s else str_upper L s)"

text \<open>\<^verbatim>\<open>\w\<close> of a \<^verbatim>\<open>str\<close> pattern: letters, digits and the underscore.\<close>

definition is_word :: "lib \<Rightarrow> int \<Rightarrow> bool" where
  "is_word L c =
     (if c < 128 then (48 \<le> c \<and> c \<le> 57) \<or> (65 \<le> c \<and> c \<le> 90) \<or> (97 \<le> c \<and> c \<le> 122) \<or> c = 95
      else uni_word L c)"

text \<open>
  \<^verbatim>\<open>re.search(r"\bw\b", s)\<close> for a word \<open>w\<close> of letters: \<open>w\<close> occurs in \<open>s\<close> with no
  word character right before it and none right after it. \<open>prev\<close> tells whether the
  character before the current position is a word character.
\<close>

fun search_from :: "lib \<Rightarrow> pystr \<Rightarrow> bool \<Rightarrow> pystr \<Rightarrow> bool" where
  "search_from L w prev [] = False"
| "search_from L w prev (c # cs) =
     ((\<not> prev \<and> prefix w (c # cs) \<and>
        (case drop (length w) (c # cs) of [] \<Rightarrow> True | d # _ \<Rightarrow> \<not> is_word L d))
      \<or> search_from L w (is_word L c) cs)"

definition re_search_word :: "lib \<Rightarrow> pystr \<Rightarrow> pystr \<Rightarrow> bool" where
  "re_search_word L w s = search_from L w False s"

text \<open>\<^verbatim>\<open>str(n)\<close> of a count.\<close>

function str_nat :: "nat \<Rightarrow> pystr" where
  "str_nat n = (if n < 10 then [48 + int n] else str_nat (n div 10) @ [48 + int (n mod 10)])"
  by pat_completeness auto
termination
  by (relation "measure id") auto

declare str_nat.simps [simp del]

text \<open>What an f-string field shows: a string as it is, any other value by the runtime.\<close>

fun py_str :: "lib \<Rightarrow> pyval \<Rightarrow> pystr" where
  "py_str L (VStr s) = s"
| "py_str L v = str_val L v"

text \<open>\<^verbatim>\<open>str(e)\<close> of an exception: a KeyError shows the repr of its key.\<close>

fun exc_str :: "lib \<Rightarrow> error \<Rightarrow> pystr" where
  "exc_str L (KeyError k) = str_repr L k"
| "exc_str L (ValueError m) = m"
| "exc_str L (TypeError m) = m"

section \<open>hypothesis\_testing.py\<close>

definition hypothesis_text :: "pystr \<Rightarrow> pystr \<Rightarrow> pystr \<Rightarrow> pystr \<times> pystr" where
  "hypothesis_text test_type col1 col2 =
    (if test_type = U ''t-test'' then
       (U ''H'' @ [sub0] @ U '': The mean of '' @ [quote] @ col1 @ [quote]
          @ U '' is equal across the two groups in '' @ [quote] @ col2 @ [quote] @ U ''.'',
        U ''H'' @ [sub1] @ U '': The mean of '' @ [quote] @ col1 @ [quote]
          @ U '' is different across the two groups in '' @ [quote] @ col2 @ [quote] @ U ''.'')
     else if test_type = U ''anova'' then
       (U ''H'' @ [sub0] @ U '': The mean of '' @ [quote] @ col1 @ [quote]
          @ U '' is equal across all groups in '' @ [quote] @ col2 @ [quote] @ U ''.'',
        U ''H'' @ [sub1] @ U '': At least one group mean of '' @ [quote] @ col1 @ [quote]
          @ U '' in '' @ [quote] @ col2 @ [quote] @ U '' is different.'')
     else if test_type = U ''mann-whitney'' then
       (U ''H'' @ [sub0] @ U '': The distribution of '' @ [quote] @ col1 @ [quote]
          @ U '' is the same across the two groups in '' @ [quote] @ col2 @ [quote] @ U ''.'',
        U ''H'' @ [sub1] @ U '': The distribution of '' @ [quote] @ col1 @ [quote]
          @ U '' differs between the two groups in '' @ [quote] @ col2 @ [quote] @ U ''.'')
     else if test_type = U ''kruskal'' then
       (U ''H'' @ [sub0] @ U '': The distribution of '' @ [quote] @ col1 @ [quote]
          @ U '' is the same across all groups in '' @ [quote] @ col2 @ [quote] @ U ''.'',
        U ''H'' @ [sub1] @ U '': At least one group distribution of '' @ [quote] @ col1 @ [quote]
          @ U '' in '' @ [quote] @ col2 @ [quote] @ U '' is different.'')
     else if test_type = U ''chi-square'' then
       (U ''H'' @ [sub0] @ U '': '' @ [quote] @ col1 @ [quote] @ U '' and ''
          @ [quote] @ col2 @ [quote] @ U '' are independent.'',
        U ''H'' @ [sub1] @ U '': '' @ [quote] @ col1 @ [quote] @ U '' and ''
          @ [quote] @ col2 @ [quote] @ U '' are not independent.'')
     else if test_type = U ''correlation'' then
       (U ''H'' @ [sub0] @ U '': There is no correlation between '' @ [quote] @ col1 @ [quote]
          @ U '' and '' @ [quote] @ col2 @ [quote] @ U ''.'',
        U ''H'' @ [sub1] @ U '': There is a correlation between '' @ [quote] @ col1 @ [quote]
          @ U '' and '' @ [quote] @ col2 @ [quote] @ U ''.'')
     else ([], []))"

subsection \<open>Effect sizes\<close>

definition cohens_d :: "lib \<Rightarrow> real list \<Rightarrow> real list \<Rightarrow> pyfloat" where
  "cohens_d L group1 group2 =
     (let diff = fsub (pd_mean L group1) (pd_mean L group2);
          pooled_std = np_sqrt L (fdiv (fadd (fmul (pd_std L group1) (pd_std L group1))
                                             (fmul (pd_std L group2) (pd_std L group2))) (Fin 2))
      in if pooled_std \<noteq> Fin 0 then fdiv diff pooled_std else NaN)"

definition eta_squared_anova :: "pyfloat \<Rightarrow> int \<Rightarrow> int \<Rightarrow> pyfloat" where
  "eta_squared_anova stat df_between df_within =
     fdiv (fmul stat (Fin (of_int df_between)))
          (fadd (fmul stat (Fin (of_int df_between))) (Fin (of_int df_within)))"

definition cramers_v :: "lib \<Rightarrow> nat list list \<Rightarrow> error + pyfloat" where
  "cramers_v L confusion_matrix =
     (case sp_chi2 L confusion_matrix of
        Inl e \<Rightarrow> Inl e
      | Inr (chi2, _) \<Rightarrow>
          (let n = sum_list (map sum_list confusion_matrix);
               phi2 = fdiv chi2 (Fin (real n));
               r = int (length confusion_matrix);
               k = int (case confusion_matrix of [] \<Rightarrow> 0 | row # _ \<Rightarrow> length row)
           in Inr (np_sqrt L (fdiv phi2 (Fin (of_int (min (k - 1) (r - 1))))))))"

subsection \<open>The normality check\<close>

definition is_normal :: "lib \<Rightarrow> real list \<Rightarrow> bool" where
  "is_normal L series =
     (if length series < 3 then False
      else fgt (sp_shapiro L (pd_sample L (min 500 (length series)) series)) (5 / 100))"

subsection \<open>Numeric against categorical\<close>

text \<open>
  The distinct values among \<open>ks\<close>, in the order in which pandas lists the keys of
  the column: the order of the categories for a column of dtype category, the
  ascending order of the library otherwise.
\<close>

definition ordered_keys :: "lib \<Rightarrow> column \<Rightarrow> cell list \<Rightarrow> cell list" where
  "ordered_keys L c ks =
     (if dtype c = Category then filter (\<lambda>k. k \<in> set ks) (categories c)
      else pd_sort L (remdups ks))"

text \<open>
  \<^verbatim>\<open>df.groupby(cat_col, observed=True)\<close> yields one group per distinct value of the
  column that occurs and is not missing; the comprehension then takes the numeric
  column of each group without its missing values. The numeric column is looked up
  once per group, so not at all when there is no group.
\<close>

definition group_keys :: "lib \<Rightarrow> column \<Rightarrow> cell list" where
  "group_keys L c = ordered_keys L c (present (cells c))"

definition group_values :: "cell list \<Rightarrow> cell list \<Rightarrow> cell \<Rightarrow> real list" where
  "group_values cats nums k =
     List.map_filter (\<lambda>(c, v). if c = k then num_of v else None) (zip cats nums)"

definition groupby_dropna ::
  "lib \<Rightarrow> dataframe \<Rightarrow> pystr \<Rightarrow> pystr \<Rightarrow> error + real list list" where
  "groupby_dropna L df cat_col num_col =
     (case getitem df cat_col of
        Inl e \<Rightarrow> Inl e
      | Inr ccol \<Rightarrow>
          (if group_keys L ccol = [] then Inr []
           else (case getitem df num_col of
                   Inl e \<Rightarrow> Inl e
                 | Inr ncol \<Rightarrow>
                     Inr (map (group_values (cells ccol) (cells ncol)) (group_keys L ccol)))))"

definition significance :: "pyfloat \<Rightarrow> real \<Rightarrow> pystr" where
  "significance p alpha = (if flt p alpha then U ''Significant'' else U ''Not significant'')"

text \<open>
  The branch of \<^verbatim>\<open>test_numeric_categorical\<close> that picks and runs the test: it gives
  the statistic, the p-value, the effect size and the test type.
\<close>

definition run_group_test ::
  "lib \<Rightarrow> nat \<Rightarrow> real list list \<Rightarrow> error + (pyfloat \<times> pyfloat \<times> pyval \<times> pystr)" where
  "run_group_test L n_rows groups =
     (if length groups = 2 then
        (if list_all (is_normal L) groups then
           (case sp_ttest_ind L (groups ! 0) (groups ! 1) of
              Inl e \<Rightarrow> Inl e
            | Inr (stat, p) \<Rightarrow>
                Inr (stat, p, VFloat (cohens_d L (groups ! 0) (groups ! 1)), U ''t-test''))
         else
           (case sp_mannwhitneyu L (groups ! 0) (groups ! 1) of
              Inl e \<Rightarrow> Inl e
            | Inr (stat, p) \<Rightarrow> Inr (stat, p, VNone, U ''mann-whitney'')))
      else
        (if list_all (is_normal L) groups then
           (case sp_f_oneway L groups of
              Inl e \<Rightarrow> Inl e
            | Inr (stat, p) \<Rightarrow>
                Inr (stat, p,
                     VFloat (eta_squared_anova stat (int (length groups) - 1)
                               (int n_rows - int (length groups))),
                     U ''anova''))
         else
           (case sp_kruskal L groups of
              Inl e \<Rightarrow> Inl e
            | Inr (stat, p) \<Rightarrow> Inr (stat, p, VNone, U ''kruskal''))))"

definition test_numeric_categorical ::
  "lib \<Rightarrow> dataframe \<Rightarrow> pystr \<Rightarrow> pystr \<Rightarrow> real \<Rightarrow> error + outcome" where
  "test_numeric_categorical L df cat_col num_col alpha =
     (case groupby_dropna L df cat_col num_col of
        Inl e \<Rightarrow> Inl e
      | Inr groups \<Rightarrow>
          (if length groups < 2 then
             Inr (Message (U ''Not enough groups for hypothesis testing.''))
           else
             (case run_group_test L (len_df df) groups of
                Inl e \<Rightarrow> Inl e
              | Inr (stat, p, effect, test_type) \<Rightarrow>
                  Inr (Result
                    [(U ''test'', VStr (py_upper L test_type)),
                     (U ''columns'', VTuple num_col cat_col),
                     (U ''H0'', VStr (fst (hypothesis_text test_type num_col cat_col))),
                     (U ''H1'', VStr (snd (hypothesis_text test_type num_col cat_col))),
                     (U ''stat'', VFloat stat),
                     (U ''p_value'', VFloat p),
                     (U ''alpha'', VFloat (Fin alpha)),
                     (U ''significance'', VStr (significance p alpha)),
                     (U ''effect_size'', effect)]))))"

subsection \<open>Categorical against categorical\<close>

text \<open>
  \<^verbatim>\<open>pd.crosstab\<close>: the rows where neither value is missing, counted per pair of
  values; the table is empty when there is no such row.
\<close>

definition key_pairs :: "cell list \<Rightarrow> cell list \<Rightarrow> (cell \<times> cell) list" where
  "key_pairs cs1 cs2 = filter (\<lambda>(a, b). a \<noteq> NA \<and> b \<noteq> NA) (zip cs1 cs2)"

definition crosstab :: "lib \<Rightarrow> column \<Rightarrow> column \<Rightarrow> nat list list" where
  "crosstab L c1 c2 =
     (let ps = key_pairs (cells c1) (cells c2)
      in map (\<lambda>r. map (\<lambda>k. count_list ps (r, k)) (ordered_keys L c2 (map snd ps)))
             (ordered_keys L c1 (map fst ps)))"

definition test_categorical_categorical ::
  "lib \<Rightarrow> dataframe \<Rightarrow> pystr \<Rightarrow> pystr \<Rightarrow> real \<Rightarrow> error + outcome" where
  "test_categorical_categorical L df cat1 cat2 alpha =
     (case getitem df cat1 of
        Inl e \<Rightarrow> Inl e
      | Inr c1 \<Rightarrow>
     (case getitem df cat2 of
        Inl e \<Rightarrow> Inl e
      | Inr c2 \<Rightarrow>
          (if crosstab L c1 c2 = [] then
             Inr (Message (U ''Contingency table is empty or invalid.''))
           else
             (case sp_chi2 L (crosstab L c1 c2) of
                Inl e \<Rightarrow> Inl e
              | Inr (stat, p) \<Rightarrow>
             (case cramers_v L (crosstab L c1 c2) of
                Inl e \<Rightarrow> Inl e
              | Inr effect \<Rightarrow>
                  Inr (Result
                    [(U ''test'', VStr (U ''Chi-square'')),
                     (U ''columns'', VTuple cat1 cat2),
                     (U ''H0'', VStr (fst (hypothesis_text (U ''chi-square'') cat1 cat2))),
                     (U ''H1'', VStr (snd (hypothesis_text (U ''chi-square'') cat1 cat2))),
                     (U ''stat'', VFloat stat),
                     (U ''p_value'', VFloat p),
                     (U ''alpha'', VFloat (Fin alpha)),
                     (U ''significance'', VStr (significance p alpha)),
                     (U ''effect_size_cramers_v'', VFloat effect)]))))))"

subsection \<open>Numeric against numeric\<close>

text \<open>
  \<^verbatim>\<open>scipy.stats.pearsonr\<close> and \<^verbatim>\<open>spearmanr\<close> take two samples of one length and raise
  a ValueError on any others, before they compute anything; \<^verbatim>\<open>pearsonr\<close> also wants
  two values at least. The statistic and the p-value are the library's.
\<close>

definition pearsonr :: "lib \<Rightarrow> real list \<Rightarrow> real list \<Rightarrow> error + pyfloat \<times> pyfloat" where
  "pearsonr L x y =
     (if length x \<noteq> length y then Inl (ValueError (U ''x and y must have the same length.''))
      else if length x < 2 then Inl (ValueError (U ''x and y must have length at least 2.''))
      else sp_pearson L x y)"

definition spearmanr :: "lib \<Rightarrow> real list \<Rightarrow> real list \<Rightarrow> error + pyfloat \<times> pyfloat" where
  "spearmanr L x y =
     (if length x \<noteq> length y
      then Inl (ValueError (U ''all the input array dimensions must match exactly''))
      else sp_spearman L x y)"

definition correlation_strength :: "pyfloat \<Rightarrow> pystr" where
  "correlation_strength stat =
     (if fgt (fabs stat) (7 / 10) then U ''Strong''
      else if fgt (fabs stat) (3 / 10) then U ''Moderate'' else U ''Weak'')"

definition test_numeric_numeric ::
  "lib \<Rightarrow> dataframe \<Rightarrow> pystr \<Rightarrow> pystr \<Rightarrow> real \<Rightarrow> error + pydict" where
  "test_numeric_numeric L df col1 col2 alpha =
     (case getitem df col1 of
        Inl e \<Rightarrow> Inl e
      | Inr c1 \<Rightarrow>
     (case getitem df col2 of
        Inl e \<Rightarrow> Inl e
      | Inr c2 \<Rightarrow>
          (let series1 = dropna (cells c1);
               series2 = dropna (cells c2);
               normal = (is_normal L series1 \<and> is_normal L series2);
               method = (if normal then U ''Pearson'' else U ''Spearman'')
           in case (if normal then pearsonr L series1 series2 else spearmanr L series1 series2) of
                Inl e \<Rightarrow> Inl e
              | Inr (stat, p) \<Rightarrow>
                  Inr [(U ''test'', VStr (method @ U '' Correlation'')),
                       (U ''columns'', VTuple col1 col2),
                       (U ''H0'', VStr (fst (hypothesis_text (U ''correlation'') col1 col2))),
                       (U ''H1'', VStr (snd (hypothesis_text (U ''correlation'') col1 col2))),
                       (U ''stat'', VFloat stat),
                       (U ''p_value'', VFloat p),
                       (U ''alpha'', VFloat (Fin alpha)),
                       (U ''significance'', VStr (significance p alpha)),
                       (U ''correlation_strength'', VStr (correlation_strength stat))])))"

section \<open>answer\_generator.py\<close>

definition format_test_result :: "lib \<Rightarrow> outcome \<Rightarrow> pystr" where
  "format_test_result L result =
     (case result of
        Message s \<Rightarrow> s
      | Result d \<Rightarrow>
          (let h0 = dict_get d (U ''H0'') (VStr (U ''N/A''));
               h1 = dict_get d (U ''H1'') (VStr (U ''N/A''));
               test_name = dict_get d (U ''test'') (VStr (U ''N/A''));
               conclusion = dict_get d (U ''result'') (VStr (U ''N/A''))
           in U ''Test: '' @ py_str L test_name @ [10]
              @ U ''H'' @ [sub0] @ U '': '' @ py_str L h0 @ [10]
              @ U ''H'' @ [sub1] @ U '': '' @ py_str L h1 @ [10]
              @ U ''Conclusion: '' @ py_str L conclusion))"

text \<open>
  \<^verbatim>\<open>re.findall(r"'([^']+)'", q)\<close>, scanning from the left: at a quote, the longest
  run of other characters after it is a match when it is not empty and a quote
  closes it, and the scan goes on behind that quote; otherwise the scan moves on by
  one character.
\<close>

function extract_columns_from_question :: "pystr \<Rightarrow> pystr list" where
  "extract_columns_from_question [] = []"
| "extract_columns_from_question (c # cs) =
     (if c = quote \<and> takeWhile (\<lambda>x. x \<noteq> quote) cs \<noteq> [] \<and> dropWhile (\<lambda>x. x \<noteq> quote) cs \<noteq> []
      then takeWhile (\<lambda>x. x \<noteq> quote) cs
             # extract_columns_from_question (tl (dropWhile (\<lambda>x. x \<noteq> quote) cs))
      else extract_columns_from_question cs)"
  by pat_completeness auto
termination
  by (relation "measure length")
     (auto simp: less_Suc_eq_le intro: order_trans [OF diff_le_self length_dropWhile_le])

definition skip_patterns :: "pystr list" where
  "skip_patterns =
     [U ''mean'', U ''average'', U ''max'', U ''min'', U ''median'', U ''sum'', U ''count'']"

fun all_numeric :: "dataframe \<Rightarrow> pystr list \<Rightarrow> error + bool" where
  "all_numeric df [] = Inr True"
| "all_numeric df (c # cs) =
     (case getitem df c of
        Inl e \<Rightarrow> Inl e
      | Inr col \<Rightarrow> if is_numeric_dtype (dtype col) then all_numeric df cs else Inr False)"

definition answer_correlation ::
  "lib \<Rightarrow> dataframe \<Rightarrow> real \<Rightarrow> pystr list \<Rightarrow> error + pystr option" where
  "answer_correlation L df alpha cols =
     (case all_numeric df cols of
        Inl e \<Rightarrow> Inl e
      | Inr ok \<Rightarrow>
          (if ok then
             (case test_numeric_numeric L df (cols ! 0) (cols ! 1) alpha of
                Inl e \<Rightarrow> Inl e
              | Inr result \<Rightarrow> Inr (Some (format_test_result L (Result result))))
           else Inr None))"

definition answer_skew :: "lib \<Rightarrow> dataframe \<Rightarrow> pystr \<Rightarrow> error + pystr option" where
  "answer_skew L df col =
     (case getitem df col of
        Inl e \<Rightarrow> Inl e
      | Inr c \<Rightarrow>
          (if is_numeric_dtype (dtype c) then
             (let skew_val = pd_skew L (dropna (cells c));
                  skew_type = (if fgt (fabs skew_val) 1 then U ''Highly skewed''
                               else U ''Relatively symmetric'')
              in Inr (Some ([quote] @ col @ [quote] @ U '' skewness = '' @ format_f L 2 skew_val
                            @ U '' ('' @ skew_type @ U '').'')))
           else Inr None))"

definition answer_kurtosis :: "lib \<Rightarrow> dataframe \<Rightarrow> pystr \<Rightarrow> error + pystr option" where
  "answer_kurtosis L df col =
     (case getitem df col of
        Inl e \<Rightarrow> Inl e
      | Inr c \<Rightarrow>
          (if is_numeric_dtype (dtype c) then
             (let kurt_val = pd_kurtosis L (dropna (cells c));
                  shape = (if fgt kurt_val 3 then U ''Leptokurtic (heavy tails)''
                           else if flt kurt_val 3 then U ''Platykurtic (light tails)''
                           else U ''Mesokurtic (normal-like)'')
              in Inr (Some ([quote] @ col @ [quote] @ U '' kurtosis = '' @ format_f L 2 kurt_val
                            @ U '' ('' @ shape @ U '').'')))
           else Inr None))"

text \<open>
  The IQR rule, as both modules compute it: the values below
  \<open>Q1 - 1.5 IQR\<close> or above \<open>Q3 + 1.5 IQR\<close>; a missing value is on neither side.
\<close>

definition outlier_count :: "lib \<Rightarrow> cell list \<Rightarrow> nat" where
  "outlier_count L cs =
     (let q1 = pd_quantile L (25 / 100) (dropna cs);
          q3 = pd_quantile L (75 / 100) (dropna cs);
          iqr = fsub q3 q1;
          lo = fsub q1 (fmul (Fin (15 / 10)) iqr);
          hi = fadd q3 (fmul (Fin (15 / 10)) iqr)
      in length (filter (\<lambda>x. fgt lo x \<or> flt hi x) (dropna cs)))"

text \<open>
  \<^verbatim>\<open>series.quantile\<close> raises a TypeError on a column of booleans, with a message of
  the library; on numbers it gives the quantiles.
\<close>

definition answer_outlier :: "lib \<Rightarrow> dataframe \<Rightarrow> pystr \<Rightarrow> error + pystr option" where
  "answer_outlier L df col =
     (case getitem df col of
        Inl e \<Rightarrow> Inl e
      | Inr c \<Rightarrow>
          (if is_numeric_dtype (dtype c) then
             if dtype c = Boolean then Inl (TypeError (bool_quantile_message L))
             else
             Inr (Some ([quote] @ col @ [quote] @ U '' has '' @ str_nat (outlier_count L (cells c))
                        @ U '' outliers detected using IQR method.''))
           else Inr None))"

definition answer_different ::
  "lib \<Rightarrow> dataframe \<Rightarrow> real \<Rightarrow> pystr \<Rightarrow> pystr \<Rightarrow> error + pystr option" where
  "answer_different L df alpha cat_col num_col =
     (case getitem df num_col of
        Inl e \<Rightarrow> Inl e
      | Inr n \<Rightarrow>
          (if \<not> is_numeric_dtype (dtype n) then Inr None
           else
             (case getitem df cat_col of
                Inl e \<Rightarrow> Inl e
              | Inr c \<Rightarrow>
                  (if is_categorical_dtype (dtype c) \<or> dtype c = Object then
                     (case test_numeric_categorical L df cat_col num_col alpha of
                        Inl e \<Rightarrow> Inl e
                      | Inr result \<Rightarrow> Inr (Some (format_test_result L result)))
                   else Inr None))))"

definition answer_association ::
  "lib \<Rightarrow> dataframe \<Rightarrow> real \<Rightarrow> pystr \<Rightarrow> pystr \<Rightarrow> error + pystr option" where
  "answer_association L df alpha cat1 cat2 =
     (case getitem df cat1 of
        Inl e \<Rightarrow> Inl e
      | Inr c1 \<Rightarrow>
          (if \<not> (dtype c1 = Object \<or> is_categorical_dtype (dtype c1)) then Inr None
           else
             (case getitem df cat2 of
                Inl e \<Rightarrow> Inl e
              | Inr c2 \<Rightarrow>
                  (if dtype c2 = Object \<or> is_categorical_dtype (dtype c2) then
                     (case test_categorical_categorical L df cat1 cat2 alpha of
                        Inl e \<Rightarrow> Inl e
                      | Inr result \<Rightarrow> Inr (Some (format_test_result L result)))
                   else Inr None))))"

text \<open>\<^verbatim>\<open>series.isnull().mean() * 100\<close>; the mean of no rows is NaN.\<close>

definition missing_pct :: "cell list \<Rightarrow> pyfloat" where
  "missing_pct cs =
     (if cs = [] then NaN
      else Fin (real (length (filter (\<lambda>c. c = NA) cs)) / real (length cs) * 100))"

definition answer_missing :: "lib \<Rightarrow> dataframe \<Rightarrow> pystr \<Rightarrow> error + pystr option" where
  "answer_missing L df col =
     (case getitem df col of
        Inl e \<Rightarrow> Inl e
      | Inr c \<Rightarrow>
          (if fgt (missing_pct (cells c)) 0 then
             Inr (Some (U ''Missing data in '' @ [quote] @ col @ [quote] @ U '': ''
                        @ format_f L 1 (missing_pct (cells c)) @ U ''%.''))
           else Inr (Some (U ''No missing data in '' @ [quote] @ col @ [quote] @ U ''.''))))"

text \<open>
  \<^verbatim>\<open>df.duplicated()\<close> marks every row that equals an earlier row; two missing values
  count as equal.
\<close>

definition cell_at :: "column \<Rightarrow> nat \<Rightarrow> cell" where
  "cell_at c i = (if i < length (cells c) then cells c ! i else NA)"

definition rows :: "dataframe \<Rightarrow> cell list list" where
  "rows df = map (\<lambda>i. map (\<lambda>(_, c). cell_at c i) df) [0 ..< len_df df]"

definition duplicated_sum :: "dataframe \<Rightarrow> nat" where
  "duplicated_sum df = length (rows df) - length (remdups (rows df))"

text \<open>
  The body of the \<^verbatim>\<open>try\<close> block for one question: \<open>Inl e\<close> when it raises \<open>e\<close>,
  \<open>Inr None\<close> when it assigns no answer, \<open>Inr (Some a)\<close> when it assigns \<open>a\<close>.
\<close>

definition answer_one :: "lib \<Rightarrow> dataframe \<Rightarrow> real \<Rightarrow> pystr \<Rightarrow> error + pystr option" where
  "answer_one L df alpha q =
     (let q_lower = py_lower L q in
      if list_ex (\<lambda>p. re_search_word L p q_lower) skip_patterns then Inr None
      else
        (let cols = extract_columns_from_question q in
         if sublist (U ''correlation'') q_lower \<and> length cols = 2 then
           answer_correlation L df alpha cols
         else if sublist (U ''skew'') q_lower \<and> length cols = 1 then
           answer_skew L df (cols ! 0)
         else if sublist (U ''kurtosis'') q_lower \<and> length cols = 1 then
           answer_kurtosis L df (cols ! 0)
         else if sublist (U ''outlier'') q_lower \<and> length cols = 1 then
           answer_outlier L df (cols ! 0)
         else if sublist (U ''different'') q_lower \<and> length cols = 2 then
           answer_different L df alpha (cols ! 0) (cols ! 1)
         else if sublist (U ''association'') q_lower \<and> length cols = 2 then
           answer_association L df alpha (cols ! 0) (cols ! 1)
         else if sublist (U ''missing'') q_lower \<and> length cols = 1 then
           answer_missing L df (cols ! 0)
         else if sublist (U ''duplicate'') q_lower then
           Inr (Some (U ''Dataset contains '' @ str_nat (duplicated_sum df) @ U '' duplicate rows.''))
         else if sublist (U ''trend'') q_lower \<and> length cols = 1 then
           Inr (Some (U ''Trend analysis for '' @ [quote] @ (cols ! 0) @ [quote]
                      @ U '' requires time-series decomposition '' @ [em_dash]
                      @ U '' not automated here.''))
         else Inr None))"

text \<open>
  One turn of the loop: the \<^verbatim>\<open>except\<close> clause stores the error text under the
  question. The answers are a dict, so a key that is there already keeps its
  place and takes the new value.
\<close>

definition answer_step ::
  "lib \<Rightarrow> dataframe \<Rightarrow> real \<Rightarrow> (pystr \<times> pystr) list \<Rightarrow> pystr \<Rightarrow> (pystr \<times> pystr) list" where
  "answer_step L df alpha answers q =
     (case answer_one L df alpha q of
        Inl e \<Rightarrow> AList.update q (U ''Error answering question: '' @ exc_str L e) answers
      | Inr None \<Rightarrow> answers
      | Inr (Some a) \<Rightarrow> AList.update q a answers)"

definition answer_questions ::
  "lib \<Rightarrow> dataframe \<Rightarrow> pystr list \<Rightarrow> real \<Rightarrow> (pystr \<times> pystr) list" where
  "answer_questions L df questions alpha = foldl (answer_step L df alpha) [] questions"

section \<open>question\_generator.py\<close>

text \<open>
  Every \<^verbatim>\<open>questions.append(f"...")\<close> of the source is one constructor below, with the
  values its f-string shows; \<open>render\<close> is the f-string.
\<close>

datatype question =
    QCorr pystr pystr pyfloat pystr pystr
  | QSkew pystr pyfloat
  | QKurt pystr pyfloat
  | QDiff pystr pystr
  | QAssoc pystr pystr
  | QSeason pystr
  | QTrend pystr pystr
  | QOutlier nat pystr
  | QMissing pyfloat pystr
  | QDuplicate

fun render :: "lib \<Rightarrow> question \<Rightarrow> pystr" where
  "render L (QCorr strength method corr col1 col2) =
     U ''Does the '' @ strength @ U '' '' @ method @ U '' correlation (r='' @ format_f L 2 corr
     @ U '') between '' @ [quote] @ col1 @ [quote] @ U '' and '' @ [quote] @ col2 @ [quote]
     @ U '' indicate potential causal or confounding factors worth testing?''"
| "render L (QSkew col skew_val) =
     [quote] @ col @ [quote] @ U '' is highly skewed (skew='' @ format_f L 2 skew_val
     @ U ''); should transformation or robust statistics be used?''"
| "render L (QKurt col kurt_val) =
     [quote] @ col @ [quote] @ U '' has high kurtosis ('' @ format_f L 2 kurt_val
     @ U ''); are heavy tails affecting hypothesis test validity?''"
| "render L (QDiff cat num) =
     U ''Do different '' @ [quote] @ cat @ [quote]
     @ U '' categories show significant differences in '' @ [quote] @ num @ [quote]
     @ U '' means (t-test/ANOVA) or medians (Kruskal-Wallis) depending on normality?''"
| "render L (QAssoc cat1 cat2) =
     U ''Is there an association between '' @ [quote] @ cat1 @ [quote] @ U '' and ''
     @ [quote] @ cat2 @ [quote] @ U '' (Chi-square test with Cram'' @ [e_acute] @ U ''r''
     @ [rsquo] @ U ''s V effect size)?''"
| "render L (QSeason col) =
     U ''Are there seasonal or trend components in '' @ [quote] @ col @ [quote]
     @ U '' detectable via time-series decomposition?''"
| "render L (QTrend num col) =
     U ''Does '' @ [quote] @ num @ [quote] @ U '' change significantly over time based on ''
     @ [quote] @ col @ [quote] @ U '' (trend analysis, Mann-Kendall test)?''"
| "render L (QOutlier outliers col) =
     U ''Do the '' @ str_nat outliers @ U '' outliers in '' @ [quote] @ col @ [quote]
     @ U '' materially influence model parameters or statistical significance?''"
| "render L (QMissing pct col) =
     U ''With '' @ format_f L 1 pct @ U ''% missing in '' @ [quote] @ col @ [quote]
     @ U '', is advanced imputation (e.g., MICE) preferable over deletion?''"
| "render L QDuplicate =
     U ''Could duplicate rows introduce bias in model coefficients or inflate statistical significance?''"

text \<open>The column names a question shows between single quotes, in the order it shows them.\<close>

fun quoted_columns :: "question \<Rightarrow> pystr list" where
  "quoted_columns (QCorr strength method corr col1 col2) = [col1, col2]"
| "quoted_columns (QSkew col skew_val) = [col]"
| "quoted_columns (QKurt col kurt_val) = [col]"
| "quoted_columns (QDiff cat num) = [cat, num]"
| "quoted_columns (QAssoc cat1 cat2) = [cat1, cat2]"
| "quoted_columns (QSeason col) = [col]"
| "quoted_columns (QTrend num col) = [num, col]"
| "quoted_columns (QOutlier outliers col) = [col]"
| "quoted_columns (QMissing pct col) = [col]"
| "quoted_columns QDuplicate = []"

text \<open>
  The three column selections. Column names are unique in a table, so a selected
  column travels with its name and \<^verbatim>\<open>df[col]\<close> is that column.
\<close>

definition numeric_cols :: "dataframe \<Rightarrow> (pystr \<times> column) list" where
  "numeric_cols df = filter (\<lambda>(n, c). dtype c = Number) df"

definition cat_cols :: "dataframe \<Rightarrow> (pystr \<times> column) list" where
  "cat_cols df = filter (\<lambda>(n, c). dtype c = Object \<or> dtype c = Category) df"

definition datetime_cols :: "dataframe \<Rightarrow> (pystr \<times> column) list" where
  "datetime_cols df = filter (\<lambda>(n, c). dtype c = Datetime) df"

text \<open>
  The pairs \<open>(xs[i], xs[j])\<close> with \<open>i < j\<close>, in the order of the two nested
  \<^verbatim>\<open>range\<close> loops.
\<close>

fun pairs :: "'a list \<Rightarrow> ('a \<times> 'a) list" where
  "pairs [] = []"
| "pairs (x # xs) = map (Pair x) xs @ pairs xs"

subsection \<open>Correlation questions\<close>

text \<open>The p-value the generator takes for one column, and the method it names.\<close>

definition corr_pvalue :: "lib \<Rightarrow> real list \<Rightarrow> pyfloat" where
  "corr_pvalue L series =
     (if length series > 3 then sp_shapiro L (pd_sample L (min 500 (length series)) series)
      else Fin 1)"

definition corr_method :: "lib \<Rightarrow> real list \<Rightarrow> real list \<Rightarrow> pystr" where
  "corr_method L series1 series2 =
     (if fgt (corr_pvalue L series1) (5 / 100) \<and> fgt (corr_pvalue L series2) (5 / 100)
      then U ''Pearson'' else U ''Spearman'')"

text \<open>
  One turn of the inner loop, on the questions so far and the counter
  \<^verbatim>\<open>corr_questions_added\<close>.
\<close>

definition corr_step ::
  "lib \<Rightarrow> int \<Rightarrow> question list \<times> nat \<Rightarrow> (pystr \<times> column) \<times> (pystr \<times> column)
     \<Rightarrow> question list \<times> nat" where
  "corr_step L max_corr_questions st pr =
     (case (st, pr) of ((questions, added), ((col1, c1), (col2, c2))) \<Rightarrow>
        if dropna (cells c1) = [] \<or> dropna (cells c2) = [] then (questions, added)
        else
          (let method = corr_method L (dropna (cells c1)) (dropna (cells c2));
               corr = pd_corr L (py_lower L method) (cells c1) (cells c2)
           in if corr \<noteq> NaN \<and> fgt (fabs corr) (3 / 10) \<and> int added < max_corr_questions then
                (questions @
                   [QCorr (if fgt (fabs corr) (7 / 10) then U ''strong'' else U ''moderate'')
                          method corr col1 col2],
                 added + 1)
              else (questions, added)))"

definition corr_questions :: "lib \<Rightarrow> dataframe \<Rightarrow> int \<Rightarrow> question list" where
  "corr_questions L df max_corr_questions =
     fst (foldl (corr_step L max_corr_questions) ([], 0) (pairs (numeric_cols df)))"

subsection \<open>The other rules\<close>

definition distribution_questions :: "lib \<Rightarrow> dataframe \<Rightarrow> question list" where
  "distribution_questions L df =
     concat (map (\<lambda>(col, c).
       (if fgt (fabs (pd_skew L (dropna (cells c)))) 1
        then [QSkew col (pd_skew L (dropna (cells c)))] else [])
       @ (if fgt (pd_kurtosis L (dropna (cells c))) 3
          then [QKurt col (pd_kurtosis L (dropna (cells c)))] else []))
       (numeric_cols df))"

text \<open>\<^verbatim>\<open>series.nunique()\<close>: the distinct values, the missing one apart.\<close>

definition nunique :: "cell list \<Rightarrow> nat" where
  "nunique cs = length (remdups (filter (\<lambda>c. c \<noteq> NA) cs))"

definition difference_questions :: "dataframe \<Rightarrow> question list" where
  "difference_questions df =
     concat (map (\<lambda>(cat, c).
       if nunique (cells c) \<le> 10 then map (\<lambda>(num, _). QDiff cat num) (numeric_cols df) else [])
       (cat_cols df))"

definition association_questions :: "dataframe \<Rightarrow> question list" where
  "association_questions df =
     concat (map (\<lambda>((cat1, c1), (cat2, c2)).
       if nunique (cells c1) \<le> 10 \<and> nunique (cells c2) \<le> 10 then [QAssoc cat1 cat2] else [])
       (pairs (cat_cols df)))"

definition time_questions :: "dataframe \<Rightarrow> question list" where
  "time_questions df =
     concat (map (\<lambda>(col, _). QSeason col # map (\<lambda>(num, _). QTrend num col) (numeric_cols df))
       (datetime_cols df))"

definition outlier_questions :: "lib \<Rightarrow> dataframe \<Rightarrow> question list" where
  "outlier_questions L df =
     concat (map (\<lambda>(col, c).
       if outlier_count L (cells c) > 0 then [QOutlier (outlier_count L (cells c)) col] else [])
       (numeric_cols df))"

definition missing_questions :: "dataframe \<Rightarrow> question list" where
  "missing_questions df =
     concat (map (\<lambda>(col, c).
       if fgt (missing_pct (cells c)) 5 then [QMissing (missing_pct (cells c)) col] else [])
       (filter (\<lambda>(col, c). NA \<in> set (cells c)) df))"

definition duplicate_questions :: "dataframe \<Rightarrow> question list" where
  "duplicate_questions df = (if duplicated_sum df > 0 then [QDuplicate] else [])"

definition question_items :: "lib \<Rightarrow> dataframe \<Rightarrow> int \<Rightarrow> question list" where
  "question_items L df max_corr_questions =
     corr_questions L df max_corr_questions
     @ distribution_questions L df
     @ difference_questions df
     @ association_questions df
     @ time_questions df
     @ outlier_questions L df
     @ missing_questions df
     @ duplicate_questions df"

definition generate_questions :: "lib \<Rightarrow> dataframe \<Rightarrow> int \<Rightarrow> pystr list" where
  "generate_questions L df max_corr_questions =
     map (render L) (question_items L df max_corr_questions)"

section \<open>A library instance and tables for the examples\<close>

text \<open>
  To run the functions on an example the library has to be some library. This one
  lowers and raises ASCII letters only, sorts numbers by value and strings by
  their code points, numbers first, takes the first values as the subsample,
  gives constant statistics (correlation 1, p-value 1 for normality, NaN for every
  moment and quantile), and prints a float in fixed notation.
\<close>

fun cell_le :: "cell \<Rightarrow> cell \<Rightarrow> bool" where
  "cell_le (Num x) (Num y) = (x \<le> y)"
| "cell_le (Str a) (Str b) = (a \<le> b)"
| "cell_le (Str a) (Num y) = False"
| "cell_le _ _ = True"

fun insert_cell :: "cell \<Rightarrow> cell list \<Rightarrow> cell list" where
  "insert_cell k [] = [k]"
| "insert_cell k (c # cs) = (if cell_le k c then k # c # cs else c # insert_cell k cs)"

definition sort_cells :: "cell list \<Rightarrow> cell list" where
  "sort_cells ks = foldr insert_cell ks []"

definition fmt_fixed :: "nat \<Rightarrow> pyfloat \<Rightarrow> pystr" where
  "fmt_fixed n x =
     (case x of
        NaN \<Rightarrow> U ''nan''
      | Fin r \<Rightarrow>
          (let k = nat (round (\<bar>r\<bar> * 10 ^ n)) in
           (if r < 0 then U ''-'' else []) @ str_nat (k div 10 ^ n)
           @ (if n = 0 then []
              else U ''.'' @ replicate (n - length (str_nat (k mod 10 ^ n))) 48
                   @ str_nat (k mod 10 ^ n))))"

definition ref_lib :: lib where
  "ref_lib =
     \<lparr> str_lower = map ascii_lower,
       str_upper = map ascii_upper,
       uni_word = (\<lambda>c. False),
       str_repr = (\<lambda>s. [quote] @ s @ [quote]),
       str_val = (\<lambda>v. U ''None''),
       format_f = fmt_fixed,
       np_sqrt = (\<lambda>x. NaN),
       pd_sort = sort_cells,
       bool_quantile_message = U ''unsupported operand type'',
       pd_sample = take,
       pd_mean = (\<lambda>xs. NaN),
       pd_std = (\<lambda>xs. NaN),
       pd_skew = (\<lambda>xs. NaN),
       pd_kurtosis = (\<lambda>xs. NaN),
       pd_quantile = (\<lambda>q xs. NaN),
       pd_corr = (\<lambda>m xs ys. Fin 1),
       sp_shapiro = (\<lambda>xs. Fin 1),
       sp_ttest_ind = (\<lambda>xs ys. Inr (Fin 0, Fin 1)),
       sp_mannwhitneyu = (\<lambda>xs ys. Inr (Fin 0, Fin 1)),
       sp_f_oneway = (\<lambda>gs. Inr (Fin 0, Fin 1)),
       sp_kruskal = (\<lambda>gs. Inr (Fin 0, Fin 1)),
       sp_chi2 = (\<lambda>t. Inr (Fin 0, Fin 1)),
       sp_pearson = (\<lambda>xs ys. Inr (Fin 1, Fin 0)),
       sp_spearman = (\<lambda>xs ys. Inr (Fin 1, Fin 0)) \<rparr>"

text \<open>A categorical column with one category, and a numeric column.\<close>

definition df_one_group :: dataframe where
  "df_one_group =
     [(U ''g'', \<lparr>dtype = Object, cells = [Str (U ''a''), Str (U ''a''), Str (U ''a'')], categories = []\<rparr>),
      (U ''x'', \<lparr>dtype = Number, cells = [Num 1, Num 2, Num 3], categories = []\<rparr>)]"

text \<open>Two categories of three rows each.\<close>

definition df_two_groups :: dataframe where
  "df_two_groups =
     [(U ''g'', \<lparr>dtype = Object,
                cells = [Str (U ''a''), Str (U ''a''), Str (U ''a''),
                         Str (U ''b''), Str (U ''b''), Str (U ''b'')], categories = []\<rparr>),
      (U ''x'', \<lparr>dtype = Number, cells = [Num 1, Num 2, Num 3, Num 4, Num 5, Num 6], categories = []\<rparr>)]"

text \<open>Two numeric columns, one of them with a missing value.\<close>

definition df_missing :: dataframe where
  "df_missing =
     [(U ''a'', \<lparr>dtype = Number, cells = [Num 1, Num 2, Num 3, NA], categories = []\<rparr>),
      (U ''b'', \<lparr>dtype = Number, cells = [Num 1, Num 2, Num 3, Num 4], categories = []\<rparr>)]"

text \<open>Three numeric columns, each a multiple of the first.\<close>

definition df_three_numeric :: dataframe where
  "df_three_numeric =
     [(U ''a'', \<lparr>dtype = Number, cells = [Num 1, Num 2, Num 3, Num 4], categories = []\<rparr>),
      (U ''b'', \<lparr>dtype = Number, cells = [Num 2, Num 4, Num 6, Num 8], categories = []\<rparr>),
      (U ''c'', \<lparr>dtype = Number, cells = [Num 3, Num 6, Num 9, Num 12], categories = []\<rparr>)]"

text \<open>A categorical column whose name is the empty string.\<close>

definition df_empty_name :: dataframe where
  "df_empty_name =
     [([], \<lparr>dtype = Object, cells = [Str (U ''a''), Str (U ''b'')], categories = []\<rparr>),
      (U ''x'', \<lparr>dtype = Number, cells = [Num 1, Num 2], categories = []\<rparr>)]"

text \<open>A numeric column named \<^verbatim>\<open>duplicates\<close> beside a datetime column.\<close>

definition df_duplicates :: dataframe where
  "df_duplicates =
     [(U ''duplicates'', \<lparr>dtype = Number, cells = [Num 0, Num 1], categories = []\<rparr>),
      (U ''date'', \<lparr>dtype = Datetime, cells = [Stamp 0, Stamp 1], categories = []\<rparr>)]"

text \<open>
  Two categories in the order \<^verbatim>\<open>b\<close>, \<^verbatim>\<open>a\<close>, and the same rows with the numbers 1 and
  2 as categories.
\<close>

definition df_b_before_a :: dataframe where
  "df_b_before_a =
     [(U ''g'', \<lparr>dtype = Category,
                cells = [Str (U ''a''), Str (U ''a''), Str (U ''a''),
                         Str (U ''b''), Str (U ''b''), Str (U ''b'')],
                categories = [Str (U ''b''), Str (U ''a'')]\<rparr>),
      (U ''x'', \<lparr>dtype = Number, cells = [Num 1, Num 2, Num 3, Num 4, Num 5, Num 6],
                categories = []\<rparr>)]"

definition df_number_keys :: dataframe where
  "df_number_keys =
     [(U ''g'', \<lparr>dtype = Category, cells = [Num 1, Num 1, Num 1, Num 2, Num 2, Num 2],
                categories = [Num 1, Num 2]\<rparr>),
      (U ''x'', \<lparr>dtype = Number, cells = [Num 1, Num 2, Num 3, Num 4, Num 5, Num 6],
                categories = []\<rparr>)]"

text \<open>Two numeric columns of two values each.\<close>

definition df_two_values :: dataframe where
  "df_two_values =
     [(U ''a'', \<lparr>dtype = Number, cells = [Num 1, Num 2], categories = []\<rparr>),
      (U ''b'', \<lparr>dtype = Number, cells = [Num 2, Num 4], categories = []\<rparr>)]"

text \<open>A numeric column beside a datetime column.\<close>

definition df_sales :: dataframe where
  "df_sales =
     [(U ''sales'', \<lparr>dtype = Number, cells = [Num 10, Num 20], categories = []\<rparr>),
      (U ''date'', \<lparr>dtype = Datetime, cells = [Stamp 0, Stamp 1], categories = []\<rparr>)]"

text \<open>A column of booleans, and a question about its outliers.\<close>

definition df_flag :: dataframe where
  "df_flag = [(U ''flag'', \<lparr>dtype = Boolean, cells = [Flag True, Flag False],
                             categories = []\<rparr>)]"

definition q_flag :: pystr where
  "q_flag = U ''Is there an outlier in '' @ [quote] @ U ''flag'' @ [quote] @ U ''?''"

text \<open>A question about a column that no table here has.\<close>

definition q_nope :: pystr where
  "q_nope = U ''Is '' @ [quote] @ U ''nope'' @ [quote] @ U '' skewed?''"

text \<open>The group-difference question the generator asks about columns \<^verbatim>\<open>g\<close> and \<^verbatim>\<open>x\<close>.\<close>

definition q_diff :: pystr where
  "q_diff = render ref_lib (QDiff (U ''g'') (U ''x''))"

text \<open>The dict of the t-test on the table of two groups, under the example library.\<close>

definition result_two_groups :: pydict where
  "result_two_groups =
     [(U ''test'', VStr (U ''T-TEST'')),
      (U ''columns'', VTuple (U ''x'') (U ''g'')),
      (U ''H0'', VStr (U ''H'' @ [sub0] @ U '': The mean of '' @ [quote] @ U ''x'' @ [quote]
                        @ U '' is equal across the two groups in '' @ [quote] @ U ''g''
                        @ [quote] @ U ''.'')),
      (U ''H1'', VStr (U ''H'' @ [sub1] @ U '': The mean of '' @ [quote] @ U ''x'' @ [quote]
                        @ U '' is different across the two groups in '' @ [quote] @ U ''g''
                        @ [quote] @ U ''.'')),
      (U ''stat'', VFloat (Fin 0)),
      (U ''p_value'', VFloat (Fin 1)),
      (U ''alpha'', VFloat (Fin (5 / 100))),
      (U ''significance'', VStr (U ''Not significant'')),
      (U ''effect_size'', VFloat NaN)]"

section \<open>Notions the properties speak of\<close>

text \<open>
  What the library promises. \<^verbatim>\<open>series.sample(n)\<close> draws \<open>n\<close> of the values without
  replacement: the result has \<open>n\<close> values and takes none more often than the series
  holds it. That the draw is uniform is a matter of the generator's state and is
  not modelled. A formatted float holds no single quote.
\<close>

definition sample_ok :: "lib \<Rightarrow> bool" where
  "sample_ok L =
     (\<forall>n xs. n \<le> length xs \<longrightarrow>
        length (pd_sample L n xs) = n \<and> mset (pd_sample L n xs) \<subseteq># mset xs)"

text \<open>
  The library's ascending order rearranges the values it is given, and a column of
  dtype category is well formed when its categories are distinct and hold every
  value of the column.
\<close>

definition sort_ok :: "lib \<Rightarrow> bool" where
  "sort_ok L = (\<forall>ks. mset (pd_sort L ks) = mset ks)"

definition column_ok :: "column \<Rightarrow> bool" where
  "column_ok c =
     (dtype c = Category \<longrightarrow>
        distinct (categories c) \<and> set (present (cells c)) \<subseteq> set (categories c))"

definition format_ok :: "lib \<Rightarrow> bool" where
  "format_ok L = (\<forall>n x. quote \<notin> set (format_f L n x))"

text \<open>
  The routine that \<^verbatim>\<open>test_numeric_categorical\<close> is to call on the groups, and the
  name the result is to carry: the parametric one when every group is normal.
\<close>

definition selected_test :: "lib \<Rightarrow> real list list \<Rightarrow> error + pyfloat \<times> pyfloat" where
  "selected_test L groups =
     (if length groups = 2 then
        (if list_all (is_normal L) groups then sp_ttest_ind L (groups ! 0) (groups ! 1)
         else sp_mannwhitneyu L (groups ! 0) (groups ! 1))
      else
        (if list_all (is_normal L) groups then sp_f_oneway L groups else sp_kruskal L groups))"

definition selected_name :: "lib \<Rightarrow> real list list \<Rightarrow> pystr" where
  "selected_name L groups =
     (if length groups = 2 then
        (if list_all (is_normal L) groups then U ''T-TEST'' else U ''MANN-WHITNEY'')
      else
        (if list_all (is_normal L) groups then U ''ANOVA'' else U ''KRUSKAL''))"

text \<open>
  A pair of numeric columns qualifies for a correlation question when both have a
  value and the coefficient is a number of magnitude above 0.3; \<open>corr_item\<close> is the
  question asked about it.
\<close>

definition corr_qualifies :: "lib \<Rightarrow> (pystr \<times> column) \<times> (pystr \<times> column) \<Rightarrow> bool" where
  "corr_qualifies L pr =
     (case pr of ((col1, c1), (col2, c2)) \<Rightarrow>
        dropna (cells c1) \<noteq> [] \<and> dropna (cells c2) \<noteq> [] \<and>
        (let corr = pd_corr L (py_lower L (corr_method L (dropna (cells c1)) (dropna (cells c2))))
                      (cells c1) (cells c2)
         in corr \<noteq> NaN \<and> fgt (fabs corr) (3 / 10)))"

definition corr_item :: "lib \<Rightarrow> (pystr \<times> column) \<times> (pystr \<times> column) \<Rightarrow> question" where
  "corr_item L pr =
     (case pr of ((col1, c1), (col2, c2)) \<Rightarrow>
        (let method = corr_method L (dropna (cells c1)) (dropna (cells c2));
             corr = pd_corr L (py_lower L method) (cells c1) (cells c2)
         in QCorr (if fgt (fabs corr) (7 / 10) then U ''strong'' else U ''moderate'')
                  method corr col1 col2))"

fun is_corr_question :: "question \<Rightarrow> bool" where
  "is_corr_question (QCorr strength method corr col1 col2) = True"
| "is_corr_question _ = False"

text \<open>The generator's own view of a column as normal: too short to test, or tested.\<close>

definition generator_normal :: "lib \<Rightarrow> real list \<Rightarrow> bool" where
  "generator_normal L series =
     (length series \<le> 3 \<or>
      fgt (sp_shapiro L (pd_sample L (min 500 (length series)) series)) (5 / 100))"

text \<open>The words a correlation question may carry for strength and method.\<close>

fun words_ok :: "question \<Rightarrow> bool" where
  "words_ok (QCorr strength method corr col1 col2) =
     ((strength = U ''strong'' \<or> strength = U ''moderate'') \<and>
      (method = U ''Pearson'' \<or> method = U ''Spearman''))"
| "words_ok _ = True"

text \<open>The entry that the outcome of one question leaves in the answers, if any.\<close>

definition entry_of :: "lib \<Rightarrow> error + pystr option \<Rightarrow> pystr option" where
  "entry_of L r =
     (case r of
        Inl e \<Rightarrow> Some (U ''Error answering question: '' @ exc_str L e)
      | Inr None \<Rightarrow> None
      | Inr (Some a) \<Rightarrow> Some a)"

declare extract_columns_from_question.simps [simp del]

section \<open>Basic facts\<close>

lemma ref_lib_simps:
  "str_lower ref_lib = map ascii_lower"
  "str_upper ref_lib = map ascii_upper"
  "uni_word ref_lib = (\<lambda>c. False)"
  "str_repr ref_lib = (\<lambda>s. [quote] @ s @ [quote])"
  "str_val ref_lib = (\<lambda>v. U ''None'')"
  "format_f ref_lib = fmt_fixed"
  "np_sqrt ref_lib = (\<lambda>x. NaN)"
  "pd_sort ref_lib = sort_cells"
  "bool_quantile_message ref_lib = U ''unsupported operand type''"
  "pd_sample ref_lib = take"
  "pd_mean ref_lib = (\<lambda>xs. NaN)"
  "pd_std ref_lib = (\<lambda>xs. NaN)"
  "pd_skew ref_lib = (\<lambda>xs. NaN)"
  "pd_kurtosis ref_lib = (\<lambda>xs. NaN)"
  "pd_quantile ref_lib = (\<lambda>q xs. NaN)"
  "pd_corr ref_lib = (\<lambda>m xs ys. Fin 1)"
  "sp_shapiro ref_lib = (\<lambda>xs. Fin 1)"
  "sp_ttest_ind ref_lib = (\<lambda>xs ys. Inr (Fin 0, Fin 1))"
  "sp_mannwhitneyu ref_lib = (\<lambda>xs ys. Inr (Fin 0, Fin 1))"
  "sp_f_oneway ref_lib = (\<lambda>gs. Inr (Fin 0, Fin 1))"
  "sp_kruskal ref_lib = (\<lambda>gs. Inr (Fin 0, Fin 1))"
  "sp_chi2 ref_lib = (\<lambda>t. Inr (Fin 0, Fin 1))"
  "sp_pearson ref_lib = (\<lambda>xs ys. Inr (Fin 1, Fin 0))"
  "sp_spearman ref_lib = (\<lambda>xs ys. Inr (Fin 1, Fin 0))"
  by (simp_all add: ref_lib_def)

lemma sample_ok_ref_lib: "sample_ok ref_lib"
  unfolding sample_ok_def
proof (intro allI impI conjI)
  fix n and xs :: "real list"
  assume "n \<le> length xs"
  then show "length (pd_sample ref_lib n xs) = n"
    by (simp add: ref_lib_simps)
  have "mset (take n xs) \<subseteq># mset (take n xs) + mset (drop n xs)"
    by simp
  then show "mset (pd_sample ref_lib n xs) \<subseteq># mset xs"
    by (simp add: ref_lib_simps flip: mset_append)
qed

lemma U_simps: "U [] = []" "U (c # cs) = of_char c # U cs"
  by (simp_all add: U_def)

lemma U_eq_iff [simp]: "U a = U b \<longleftrightarrow> a = b"
  by (simp add: U_def inj_map_eq_map [OF inj_of_char])

lemma dict_get_simps [simp]:
  "dict_get [] k dflt = dflt"
  "dict_get ((k', v) # d) k dflt = (if k' = k then v else dict_get d k dflt)"
  by (simp_all add: dict_get_def)

lemma fgt_fabs: "fgt (fabs x) c = (\<exists>r. x = Fin r \<and> \<bar>r\<bar> > c)"
  by (cases x) auto

section \<open>Groups\<close>

lemma mset_insert_cell: "mset (insert_cell k cs) = add_mset k (mset cs)"
  by (induction cs) simp_all

lemma sort_ok_ref_lib: "sort_ok ref_lib"
proof -
  have "mset (sort_cells ks) = mset ks" for ks
    unfolding sort_cells_def by (induction ks) (simp_all add: mset_insert_cell)
  then show ?thesis
    by (simp add: sort_ok_def ref_lib_simps)
qed

text \<open>
  Under a library that sorts by rearranging, the groups of a well-formed column
  are its distinct values that are not missing, each once.
\<close>

lemma group_keys_distinct_set:
  assumes "sort_ok L" and "column_ok c"
  shows "distinct (group_keys L c) \<and> set (group_keys L c) = set (present (cells c))"
proof (cases "dtype c = Category")
  case True
  with assms(2) have "distinct (categories c)"
    and "set (present (cells c)) \<subseteq> set (categories c)"
    by (simp_all add: column_ok_def)
  with True show ?thesis
    by (auto simp: group_keys_def ordered_keys_def)
next
  case False
  from assms(1) have m: "mset (pd_sort L (remdups (present (cells c))))
      = mset (remdups (present (cells c)))"
    by (simp add: sort_ok_def)
  then have "set (pd_sort L (remdups (present (cells c)))) = set (remdups (present (cells c)))"
    by (rule mset_eq_setD)
  moreover from m have "distinct (pd_sort L (remdups (present (cells c))))"
    using mset_eq_imp_distinct_iff [OF m] by simp
  ultimately show ?thesis
    using False by (simp add: group_keys_def ordered_keys_def)
qed

lemma groupby_count:
  assumes "sort_ok L" and "column_ok c" and "getitem df cat_col = Inr c"
    and "groupby_dropna L df cat_col num_col = Inr groups"
  shows "length groups = card (set (cells c) - {NA})"
proof -
  have d: "distinct (group_keys L c)"
    and s: "set (group_keys L c) = set (present (cells c))"
    using group_keys_distinct_set [OF assms(1,2)] by simp_all
  from assms(3,4) have "length groups = length (group_keys L c)"
    by (auto simp: groupby_dropna_def split: if_splits sum.splits)
  also from d have "length (group_keys L c) = card (set (group_keys L c))"
    by (rule distinct_card [symmetric])
  also have "set (group_keys L c) = set (cells c) - {NA}"
    unfolding s by (auto simp: present_def)
  finally show ?thesis .
qed

text \<open>
  The groups come in the order of the categories, and a category may be a number.
\<close>

lemma groupby_category_order:
  "groupby_dropna ref_lib df_b_before_a (U ''g'') (U ''x'') = Inr [[4, 5, 6], [1, 2, 3]]"
  by code_simp

lemma groupby_number_keys:
  "groupby_dropna ref_lib df_number_keys (U ''g'') (U ''x'') = Inr [[1, 2, 3], [4, 5, 6]]"
  by code_simp

section \<open>The normality check\<close>

text \<open>
  C5. \<open>is_normal\<close> is false for a sample of fewer than 3 values. For a sample of at
  least 3 values it tests a subsample of \<open>min 500 (length sample)\<close> values, drawn
  without replacement, and is true exactly when the p-value of that test is
  strictly above 0.05.
\<close>

theorem is_normal_contract:
  assumes "sample_ok L"
  shows "(length series < 3 \<longrightarrow> \<not> is_normal L series) \<and>
         (3 \<le> length series \<longrightarrow>
            length (pd_sample L (min 500 (length series)) series) = min 500 (length series) \<and>
            mset (pd_sample L (min 500 (length series)) series) \<subseteq># mset series \<and>
            is_normal L series =
              (\<exists>p. sp_shapiro L (pd_sample L (min 500 (length series)) series) = Fin p
                   \<and> p > 5 / 100))"
proof -
  have "fgt x c = (\<exists>p. x = Fin p \<and> p > c)" for x c
    by (cases x) auto
  moreover have "min 500 (length series) \<le> length series"
    by simp
  ultimately show ?thesis
    using assms unfolding sample_ok_def is_normal_def by (auto simp del: min_less_iff_conj)
qed

theorem is_normal_contract_witness:
  "sample_ok ref_lib \<and> \<not> is_normal ref_lib [1, 2] \<and> is_normal ref_lib [1, 2, 3, 4]"
  using is_normal_contract [OF sample_ok_ref_lib, of "[1, 2]"]
        is_normal_contract [OF sample_ok_ref_lib, of "[1, 2, 3, 4]"]
  by (simp add: sample_ok_ref_lib ref_lib_simps)

section \<open>The choice of the group test\<close>

lemma py_upper_test_types:
  "py_upper L (U ''t-test'') = U ''T-TEST''"
  "py_upper L (U ''mann-whitney'') = U ''MANN-WHITNEY''"
  "py_upper L (U ''anova'') = U ''ANOVA''"
  "py_upper L (U ''kruskal'') = U ''KRUSKAL''"
  by (simp_all add: py_upper_def is_ascii_def ascii_upper_def U_simps)

lemma run_group_test_name:
  "run_group_test L n groups = Inr (stat, p, effect, test_type) \<Longrightarrow>
     selected_test L groups = Inr (stat, p) \<and> py_upper L test_type = selected_name L groups"
  by (auto simp: run_group_test_def selected_test_def selected_name_def py_upper_test_types
           split: sum.splits if_splits)

lemma run_group_test_error:
  "run_group_test L n groups = Inl e \<longleftrightarrow> selected_test L groups = Inl e"
  by (auto simp: run_group_test_def selected_test_def split: sum.splits if_splits)

text \<open>
  C4. With two groups or more, \<open>test_numeric_categorical\<close> calls one routine, the one
  \<open>selected_test\<close> names: for exactly 2 groups the t-test when both groups are
  normal and Mann-Whitney when one is not, for 3 groups or more ANOVA when all
  groups are normal and Kruskal-Wallis when one is not. It raises what the routine
  raises, and otherwise returns a result that carries the routine's statistic and
  p-value under the matching test name.
\<close>

theorem test_selection:
  assumes "groupby_dropna L df cat_col num_col = Inr groups" and "2 \<le> length groups"
  shows "(\<exists>e. selected_test L groups = Inl e \<and>
              test_numeric_categorical L df cat_col num_col alpha = Inl e) \<or>
         (\<exists>stat p d. selected_test L groups = Inr (stat, p) \<and>
              test_numeric_categorical L df cat_col num_col alpha = Inr (Result d) \<and>
              dict_get d (U ''test'') VNone = VStr (selected_name L groups) \<and>
              dict_get d (U ''stat'') VNone = VFloat stat \<and>
              dict_get d (U ''p_value'') VNone = VFloat p)"
proof (cases "run_group_test L (len_df df) groups")
  case (Inl e)
  then have "selected_test L groups = Inl e"
    by (simp add: run_group_test_error)
  with Inl assms show ?thesis
    by (simp add: test_numeric_categorical_def)
next
  case (Inr r)
  obtain stat p effect test_type where r: "r = (stat, p, effect, test_type)"
    by (cases r) auto
  from Inr r have "selected_test L groups = Inr (stat, p)"
    and "py_upper L test_type = selected_name L groups"
    by (simp_all add: run_group_test_name)
  with assms Inr r show ?thesis
    by (simp add: test_numeric_categorical_def)
qed

theorem test_selection_witness:
  "groupby_dropna ref_lib df_two_groups (U ''g'') (U ''x'') = Inr [[1, 2, 3], [4, 5, 6]] \<and>
   list_all (is_normal ref_lib) [[1, 2, 3], [4, 5, 6]] \<and>
   (\<exists>d. test_numeric_categorical ref_lib df_two_groups (U ''g'') (U ''x'') (5 / 100)
          = Inr (Result d)
        \<and> dict_get d (U ''test'') VNone = VStr (U ''T-TEST''))"
proof -
  have g: "groupby_dropna ref_lib df_two_groups (U ''g'') (U ''x'') = Inr [[1, 2, 3], [4, 5, 6]]"
    by code_simp
  have n: "list_all (is_normal ref_lib) [[1, 2, 3], [4, 5, 6]]"
    by (simp add: is_normal_def ref_lib_simps)
  show ?thesis
    using test_selection [OF g, where alpha = "5 / 100"] g n
    by (auto simp add: selected_test_def selected_name_def ref_lib_simps)
qed

section \<open>The rendered conclusion\<close>

text \<open>
  C2. The rendering of a result of \<open>test_numeric_categorical\<close> follows the template
  \<^verbatim>\<open>Test: <name>\nH0: <h0>\nH1: <h1>\nConclusion: <text>\<close>, but the text on the
  Conclusion line is \<^verbatim>\<open>N/A\<close>: the result holds its significance text under the key
  \<^verbatim>\<open>significance\<close>, and \<open>format_test_result\<close> reads the key \<^verbatim>\<open>result\<close>.
\<close>

theorem conclusion_is_not_available:
  assumes "test_numeric_categorical L df cat_col num_col alpha = Inr (Result d)"
  shows "(\<exists>p. dict_get d (U ''significance'') VNone = VStr (significance p alpha)) \<and>
         format_test_result L (Result d) =
           U ''Test: '' @ py_str L (dict_get d (U ''test'') VNone) @ [10]
           @ U ''H'' @ [sub0] @ U '': '' @ py_str L (dict_get d (U ''H0'') VNone) @ [10]
           @ U ''H'' @ [sub1] @ U '': '' @ py_str L (dict_get d (U ''H1'') VNone) @ [10]
           @ U ''Conclusion: '' @ U ''N/A''"
  using assms
  by (auto simp: test_numeric_categorical_def format_test_result_def
           split: sum.splits if_splits prod.splits)

theorem conclusion_is_not_available_witness:
  "test_numeric_categorical ref_lib df_two_groups (U ''g'') (U ''x'') (5 / 100)
     = Inr (Result result_two_groups) \<and>
   dict_get result_two_groups (U ''significance'') VNone = VStr (U ''Not significant'') \<and>
   format_test_result ref_lib (Result result_two_groups) =
     U ''Test: T-TEST'' @ [10]
     @ U ''H'' @ [sub0] @ U '': H'' @ [sub0] @ U '': The mean of '' @ [quote] @ U ''x'' @ [quote]
     @ U '' is equal across the two groups in '' @ [quote] @ U ''g'' @ [quote] @ U ''.'' @ [10]
     @ U ''H'' @ [sub1] @ U '': H'' @ [sub1] @ U '': The mean of '' @ [quote] @ U ''x'' @ [quote]
     @ U '' is different across the two groups in '' @ [quote] @ U ''g'' @ [quote] @ U ''.'' @ [10]
     @ U ''Conclusion: N/A''"
proof -
  have h: "test_numeric_categorical ref_lib df_two_groups (U ''g'') (U ''x'') (5 / 100)
     = Inr (Result result_two_groups)"
    by code_simp
  have s: "dict_get result_two_groups (U ''significance'') VNone = VStr (U ''Not significant'')"
    by code_simp
  have "U ''Test: '' @ py_str ref_lib (dict_get result_two_groups (U ''test'') VNone) @ [10]
           @ U ''H'' @ [sub0] @ U '': ''
           @ py_str ref_lib (dict_get result_two_groups (U ''H0'') VNone) @ [10]
           @ U ''H'' @ [sub1] @ U '': ''
           @ py_str ref_lib (dict_get result_two_groups (U ''H1'') VNone) @ [10]
           @ U ''Conclusion: '' @ U ''N/A'' =
     U ''Test: T-TEST'' @ [10]
     @ U ''H'' @ [sub0] @ U '': H'' @ [sub0] @ U '': The mean of '' @ [quote] @ U ''x'' @ [quote]
     @ U '' is equal across the two groups in '' @ [quote] @ U ''g'' @ [quote] @ U ''.'' @ [10]
     @ U ''H'' @ [sub1] @ U '': H'' @ [sub1] @ U '': The mean of '' @ [quote] @ U ''x'' @ [quote]
     @ U '' is different across the two groups in '' @ [quote] @ U ''g'' @ [quote] @ U ''.'' @ [10]
     @ U ''Conclusion: N/A''"
    by code_simp
  with conclusion_is_not_available [OF h] h s show ?thesis
    by simp
qed

section \<open>Two numeric columns with different numbers of missing values\<close>

text \<open>
  C3. \<open>test_numeric_numeric\<close> drops the missing values of each column on its own.
  When the two columns then have different numbers of values, it returns no
  result: the correlation routine raises a ValueError, which \<open>test_numeric_numeric\<close>
  lets through.
\<close>

theorem unequal_lengths_raise:
  assumes "getitem df col1 = Inr c1" and "getitem df col2 = Inr c2"
    and "length (dropna (cells c1)) \<noteq> length (dropna (cells c2))"
  shows "\<exists>m. test_numeric_numeric L df col1 col2 alpha = Inl (ValueError m)"
  using assms by (simp add: test_numeric_numeric_def pearsonr_def spearmanr_def Let_def)

theorem unequal_lengths_raise_witness:
  "getitem df_missing (U ''a'') = Inr \<lparr>dtype = Number, cells = [Num 1, Num 2, Num 3, NA], categories = []\<rparr> \<and>
   getitem df_missing (U ''b'') = Inr \<lparr>dtype = Number, cells = [Num 1, Num 2, Num 3, Num 4], categories = []\<rparr> \<and>
   dropna [Num 1, Num 2, Num 3, NA] = [1, 2, 3] \<and>
   dropna [Num 1, Num 2, Num 3, Num 4] = [1, 2, 3, 4] \<and>
   (\<exists>m. test_numeric_numeric ref_lib df_missing (U ''a'') (U ''b'') (5 / 100)
          = Inl (ValueError m))"
proof -
  have a: "getitem df_missing (U ''a'')
             = Inr \<lparr>dtype = Number, cells = [Num 1, Num 2, Num 3, NA], categories = []\<rparr>"
    by code_simp
  have b: "getitem df_missing (U ''b'')
             = Inr \<lparr>dtype = Number, cells = [Num 1, Num 2, Num 3, Num 4], categories = []\<rparr>"
    by code_simp
  have da: "dropna [Num 1, Num 2, Num 3, NA] = [1, 2, 3]"
    by code_simp
  have db: "dropna [Num 1, Num 2, Num 3, Num 4] = [1, 2, 3, 4]"
    by code_simp
  have "length (dropna (cells \<lparr>dtype = Number, cells = [Num 1, Num 2, Num 3, NA], categories = []\<rparr>))
          \<noteq> length (dropna (cells \<lparr>dtype = Number, cells = [Num 1, Num 2, Num 3, Num 4], categories = []\<rparr>))"
    by (simp add: da db)
  from unequal_lengths_raise [OF a b this] a b da db show ?thesis
    by blast
qed

section \<open>Correlation questions\<close>

lemma corr_step_cases:
  "corr_step L m (qs, k) pr =
     (if corr_qualifies L pr \<and> int k < m then (qs @ [corr_item L pr], Suc k) else (qs, k))"
  by (cases pr rule: prod.exhaust [where 'a = "pystr \<times> column"])
     (auto simp: corr_step_def corr_qualifies_def corr_item_def Let_def split: prod.splits)

lemma corr_loop:
  "foldl (corr_step L m) (qs, k) ps =
     (qs @ map (corr_item L) (take (nat m - k) (filter (corr_qualifies L) ps)),
      k + length (take (nat m - k) (filter (corr_qualifies L) ps)))"
proof (induction ps arbitrary: qs k)
  case Nil
  then show ?case by simp
next
  case (Cons pr ps)
  show ?case
  proof (cases "corr_qualifies L pr \<and> int k < m")
    case True
    then have "nat m - k = Suc (nat m - Suc k)"
      by linarith
    with True show ?thesis
      by (simp add: corr_step_cases Cons.IH)
  next
    case False
    then have "\<not> corr_qualifies L pr \<or> nat m - k = 0"
      by linarith
    with False show ?thesis
      by (auto simp add: corr_step_cases Cons.IH)
  qed
qed

lemma corr_questions_eq:
  "corr_questions L df m =
     map (corr_item L) (take (nat m) (filter (corr_qualifies L) (pairs (numeric_cols df))))"
  by (simp add: corr_questions_def corr_loop)

lemma is_corr_corr_item: "is_corr_question (corr_item L pr)"
  by (cases pr rule: prod.exhaust [where 'a = "pystr \<times> column"])
     (auto simp: corr_item_def Let_def split: prod.splits)

lemma no_corr_elsewhere:
  "filter is_corr_question (distribution_questions L df) = []"
  "filter is_corr_question (difference_questions df) = []"
  "filter is_corr_question (association_questions df) = []"
  "filter is_corr_question (time_questions df) = []"
  "filter is_corr_question (outlier_questions L df) = []"
  "filter is_corr_question (missing_questions df) = []"
  "filter is_corr_question (duplicate_questions df) = []"
  by (auto simp: distribution_questions_def difference_questions_def association_questions_def
        time_questions_def outlier_questions_def missing_questions_def duplicate_questions_def
        filter_empty_conv split: if_splits)

lemma filter_corr_items:
  "filter is_corr_question (question_items L df m) = corr_questions L df m"
  by (simp add: question_items_def no_corr_elsewhere corr_questions_eq is_corr_corr_item)

text \<open>
  C8. The correlation questions among the generated ones are the questions about
  the first \<open>max_corr_questions\<close> qualifying pairs of numeric columns, in the order
  of the pairs: there are at most \<open>max_corr_questions\<close> of them (none for a cap
  below 1), and each is about a pair whose coefficient has magnitude above 0.3.
\<close>

theorem corr_questions_capped:
  "filter is_corr_question (question_items L df max_corr_questions) =
     map (corr_item L) (take (nat max_corr_questions)
        (filter (corr_qualifies L) (pairs (numeric_cols df)))) \<and>
   int (length (filter is_corr_question (question_items L df max_corr_questions)))
     \<le> max 0 max_corr_questions \<and>
   (\<forall>q \<in> set (filter is_corr_question (question_items L df max_corr_questions)).
      \<exists>pr \<in> set (pairs (numeric_cols df)). q = corr_item L pr \<and> corr_qualifies L pr)"
proof (intro conjI)
  show eq: "filter is_corr_question (question_items L df max_corr_questions) =
     map (corr_item L) (take (nat max_corr_questions)
        (filter (corr_qualifies L) (pairs (numeric_cols df))))"
    by (simp add: filter_corr_items corr_questions_eq)
  show "int (length (filter is_corr_question (question_items L df max_corr_questions)))
     \<le> max 0 max_corr_questions"
    unfolding eq by simp
  show "\<forall>q \<in> set (filter is_corr_question (question_items L df max_corr_questions)).
      \<exists>pr \<in> set (pairs (numeric_cols df)). q = corr_item L pr \<and> corr_qualifies L pr"
    unfolding eq by (auto dest!: in_set_takeD)
qed

theorem corr_questions_capped_witness:
  "length (filter (corr_qualifies ref_lib) (pairs (numeric_cols df_three_numeric))) = 3 \<and>
   filter is_corr_question (question_items ref_lib df_three_numeric 2) =
     [QCorr (U ''strong'') (U ''Pearson'') (Fin 1) (U ''a'') (U ''b''),
      QCorr (U ''strong'') (U ''Pearson'') (Fin 1) (U ''a'') (U ''c'')]"
proof -
  have l: "length (filter (corr_qualifies ref_lib) (pairs (numeric_cols df_three_numeric))) = 3"
    by code_simp
  have e: "map (corr_item ref_lib) (take (nat 2)
             (filter (corr_qualifies ref_lib) (pairs (numeric_cols df_three_numeric)))) =
     [QCorr (U ''strong'') (U ''Pearson'') (Fin 1) (U ''a'') (U ''b''),
      QCorr (U ''strong'') (U ''Pearson'') (Fin 1) (U ''a'') (U ''c'')]"
    by code_simp
  from corr_questions_capped [of ref_lib df_three_numeric 2]
  have "filter is_corr_question (question_items ref_lib df_three_numeric 2) =
     map (corr_item ref_lib) (take (nat 2)
        (filter (corr_qualifies ref_lib) (pairs (numeric_cols df_three_numeric))))"
    by (rule conjunct1)
  with l e show ?thesis
    by simp
qed

text \<open>
  C9, as amended. A correlation question names Pearson exactly when the generator
  takes both columns for normal, and Spearman otherwise. The generator takes a
  column for normal when it has at most 3 values, or when the normality test on
  the subsample gives a p-value above 0.05. For two columns of more than 3 values
  each this is the decision of \<open>is_normal\<close>.
\<close>

theorem corr_method_decision:
  assumes "QCorr strength method corr col1 col2 \<in> set (question_items L df m)"
  shows "\<exists>c1 c2. ((col1, c1), (col2, c2)) \<in> set (pairs (numeric_cols df)) \<and>
           method = (if generator_normal L (dropna (cells c1)) \<and>
                        generator_normal L (dropna (cells c2))
                     then U ''Pearson'' else U ''Spearman'') \<and>
           (3 < length (dropna (cells c1)) \<and> 3 < length (dropna (cells c2)) \<longrightarrow>
              method = (if is_normal L (dropna (cells c1)) \<and> is_normal L (dropna (cells c2))
                        then U ''Pearson'' else U ''Spearman''))"
proof -
  from assms have "QCorr strength method corr col1 col2
      \<in> set (filter is_corr_question (question_items L df m))"
    by simp
  then obtain pr where pr: "pr \<in> set (pairs (numeric_cols df))"
    and q: "QCorr strength method corr col1 col2 = corr_item L pr"
    unfolding filter_corr_items corr_questions_eq by (auto dest!: in_set_takeD)
  obtain n1 c1 n2 c2 where "pr = ((n1, c1), (n2, c2))"
    by (cases pr rule: prod.exhaust [where 'a = "pystr \<times> column"]) auto
  with pr q have "((col1, c1), (col2, c2)) \<in> set (pairs (numeric_cols df))"
    and "method = corr_method L (dropna (cells c1)) (dropna (cells c2))"
    by (simp_all add: corr_item_def Let_def)
  moreover have "corr_method L s1 s2 =
      (if generator_normal L s1 \<and> generator_normal L s2 then U ''Pearson'' else U ''Spearman'')"
    for s1 s2
    by (auto simp: corr_method_def corr_pvalue_def generator_normal_def)
  moreover have "generator_normal L s = is_normal L s" if "3 < length s" for s
    using that by (simp add: generator_normal_def is_normal_def)
  ultimately show ?thesis
    by (intro exI [of _ c1] exI [of _ c2]) simp
qed

theorem corr_method_decision_witness:
  "QCorr (U ''strong'') (U ''Pearson'') (Fin 1) (U ''a'') (U ''b'')
     \<in> set (question_items ref_lib df_three_numeric 2) \<and>
   (\<exists>c1 c2. ((U ''a'', c1), (U ''b'', c2)) \<in> set (pairs (numeric_cols df_three_numeric)) \<and>
      3 < length (dropna (cells c1)) \<and> 3 < length (dropna (cells c2)) \<and>
      is_normal ref_lib (dropna (cells c1)) \<and> is_normal ref_lib (dropna (cells c2)))"
proof -
  have h: "QCorr (U ''strong'') (U ''Pearson'') (Fin 1) (U ''a'') (U ''b'')
     \<in> set (question_items ref_lib df_three_numeric 2)"
    by code_simp
  from corr_method_decision [OF h] obtain c1 c2
    where p: "((U ''a'', c1), (U ''b'', c2)) \<in> set (pairs (numeric_cols df_three_numeric))"
    by blast
  then have cs: "cells c1 = [Num 1, Num 2, Num 3, Num 4]"
    "cells c2 = [Num 2, Num 4, Num 6, Num 8]"
    by (auto simp: df_three_numeric_def numeric_cols_def)
  have d: "dropna [Num 1, Num 2, Num 3, Num 4] = [1, 2, 3, 4]"
    "dropna [Num 2, Num 4, Num 6, Num 8] = [2, 4, 6, 8]"
    by (simp_all add: dropna_def List.map_filter_def)
  have "is_normal ref_lib [1, 2, 3, 4]" and "is_normal ref_lib [2, 4, 6, 8]"
    by (simp_all add: is_normal_def ref_lib_simps)
  then have "3 < length (dropna (cells c1)) \<and> 3 < length (dropna (cells c2)) \<and>
      is_normal ref_lib (dropna (cells c1)) \<and> is_normal ref_lib (dropna (cells c2))"
    by (simp add: cs d)
  with p h show ?thesis
    by blast
qed

text \<open>
  C9, as stated, fails on two columns of two values each: the generator asks about
  a Pearson correlation, and \<open>is_normal\<close> is false for both columns.
\<close>

theorem pearson_without_normality:
  "map (\<lambda>(n, c). dropna (cells c)) df_two_values = [[1, 2], [2, 4]] \<and>
   question_items ref_lib df_two_values 5 =
     [QCorr (U ''strong'') (U ''Pearson'') (Fin 1) (U ''a'') (U ''b'')] \<and>
   \<not> is_normal ref_lib [1, 2] \<and> \<not> is_normal ref_lib [2, 4]"
  by code_simp

section \<open>The answers of a list of questions\<close>

lemma answer_step_lookup:
  "map_of (answer_step L df alpha acc q') q =
     (if q = q' \<and> answer_one L df alpha q' \<noteq> Inr None
      then entry_of L (answer_one L df alpha q') else map_of acc q)"
  by (auto simp: answer_step_def entry_of_def update_conv' split: sum.splits option.splits)

lemma answer_loop_lookup:
  "map_of (foldl (answer_step L df alpha) acc qs) q =
     (if q \<in> set qs \<and> answer_one L df alpha q \<noteq> Inr None
      then entry_of L (answer_one L df alpha q) else map_of acc q)"
  by (induction qs arbitrary: acc) (auto simp: answer_step_lookup)

lemma answer_questions_lookup:
  "map_of (answer_questions L df questions alpha) q =
     (if q \<in> set questions then entry_of L (answer_one L df alpha q) else None)"
  by (auto simp: answer_questions_def answer_loop_lookup entry_of_def)

text \<open>The outlier question about a column of booleans ends in the error text.\<close>

lemma outlier_of_booleans:
  "answer_questions ref_lib df_flag [q_flag] (5 / 100)
     = [(q_flag, U ''Error answering question: unsupported operand type'')]"
  by code_simp

text \<open>
  C6. \<open>answer_questions\<close> returns a mapping for every table, question list and alpha:
  nothing a question raises leaves the call. The entry of a question is decided by
  that question alone: the answer it computes, no entry when it computes none, and
  the text \<^verbatim>\<open>Error answering question: <message>\<close> when answering it raises. A
  string that is not among the questions has no entry.
\<close>

theorem answer_questions_never_raises:
  "map_of (answer_questions L df questions alpha) q =
     (if q \<in> set questions then entry_of L (answer_one L df alpha q) else None) \<and>
   (q \<in> set questions \<longrightarrow>
      map_of (answer_questions L df questions alpha) q
        = map_of (answer_questions L df [q] alpha) q) \<and>
   (\<forall>e. answer_one L df alpha q = Inl e \<and> q \<in> set questions \<longrightarrow>
      map_of (answer_questions L df questions alpha) q
        = Some (U ''Error answering question: '' @ exc_str L e))"
  by (simp add: answer_questions_lookup entry_of_def)

theorem answer_questions_never_raises_witness:
  "answer_one ref_lib df_one_group (5 / 100) q_nope = Inl (KeyError (U ''nope'')) \<and>
   map_of (answer_questions ref_lib df_one_group [q_nope, q_diff] (5 / 100)) q_nope
     = Some (U ''Error answering question: '' @ [quote] @ U ''nope'' @ [quote]) \<and>
   map_of (answer_questions ref_lib df_one_group [q_nope, q_diff] (5 / 100)) q_diff
     = Some (U ''Not enough groups for hypothesis testing.'')"
proof -
  have n: "answer_one ref_lib df_one_group (5 / 100) q_nope = Inl (KeyError (U ''nope''))"
    by code_simp
  have d: "answer_one ref_lib df_one_group (5 / 100) q_diff
             = Inr (Some (U ''Not enough groups for hypothesis testing.''))"
    by code_simp
  from answer_questions_never_raises [of ref_lib df_one_group "[q_nope, q_diff]" "5 / 100" q_nope]
       answer_questions_never_raises [of ref_lib df_one_group "[q_nope, q_diff]" "5 / 100" q_diff]
       n d
  show ?thesis
    by (simp add: entry_of_def ref_lib_simps)
qed

section \<open>Too few groups\<close>

text \<open>
  C1, as amended. Take a question that reaches the group-difference branch: it
  matches no skip pattern, lacks the word \<^verbatim>\<open>correlation\<close>, has the word
  \<^verbatim>\<open>different\<close>, and quotes a categorical and a numeric column of the table. If
  grouping by the categorical column gives fewer than 2 groups (one group for each
  distinct value of the column that is not missing, see \<open>groupby_count\<close>), the
  answers hold an entry for the question, and the entry is the message
  \<^verbatim>\<open>Not enough groups for hypothesis testing.\<close>
\<close>

theorem too_few_groups_message:
  assumes "\<not> list_ex (\<lambda>p. re_search_word L p (py_lower L q)) skip_patterns"
    and "\<not> sublist (U ''correlation'') (py_lower L q)"
    and "sublist (U ''different'') (py_lower L q)"
    and "extract_columns_from_question q = [cat_col, num_col]"
    and "getitem df num_col = Inr n" and "is_numeric_dtype (dtype n)"
    and "getitem df cat_col = Inr c" and "dtype c = Object \<or> dtype c = Category"
    and "groupby_dropna L df cat_col num_col = Inr groups" and "length groups < 2"
    and "q \<in> set questions"
  shows "map_of (answer_questions L df questions alpha) q
           = Some (U ''Not enough groups for hypothesis testing.'')"
proof -
  have "test_numeric_categorical L df cat_col num_col alpha
          = Inr (Message (U ''Not enough groups for hypothesis testing.''))"
    using assms(9,10) by (simp add: test_numeric_categorical_def)
  then have "answer_different L df alpha cat_col num_col
          = Inr (Some (U ''Not enough groups for hypothesis testing.''))"
    using assms(5-8)
    by (auto simp: answer_different_def format_test_result_def is_categorical_dtype_def)
  then have "answer_one L df alpha q
          = Inr (Some (U ''Not enough groups for hypothesis testing.''))"
    using assms(1-4) by (simp add: answer_one_def)
  with assms(11) show ?thesis
    by (simp add: answer_questions_lookup entry_of_def)
qed

theorem too_few_groups_message_witness:
  "groupby_dropna ref_lib df_one_group (U ''g'') (U ''x'') = Inr [[1, 2, 3]] \<and>
   map_of (answer_questions ref_lib df_one_group (generate_questions ref_lib df_one_group 5)
             (5 / 100)) q_diff
     = Some (U ''Not enough groups for hypothesis testing.'')"
proof -
  have 1: "\<not> list_ex (\<lambda>p. re_search_word ref_lib p (py_lower ref_lib q_diff)) skip_patterns"
    by code_simp
  have 2: "\<not> sublist (U ''correlation'') (py_lower ref_lib q_diff)"
    by code_simp
  have 3: "sublist (U ''different'') (py_lower ref_lib q_diff)"
    by code_simp
  have 4: "extract_columns_from_question q_diff = [U ''g'', U ''x'']"
    by code_simp
  have 5: "getitem df_one_group (U ''x'')
             = Inr \<lparr>dtype = Number, cells = [Num 1, Num 2, Num 3], categories = []\<rparr>"
    by code_simp
  have 6: "is_numeric_dtype (dtype \<lparr>dtype = Number, cells = [Num 1, Num 2, Num 3], categories = []\<rparr>)"
    by (simp add: is_numeric_dtype_def)
  have 7: "getitem df_one_group (U ''g'')
             = Inr \<lparr>dtype = Object, cells = [Str (U ''a''), Str (U ''a''), Str (U ''a'')], categories = []\<rparr>"
    by code_simp
  have 8: "dtype \<lparr>dtype = Object, cells = [Str (U ''a''), Str (U ''a''), Str (U ''a'')], categories = []\<rparr> = Object
           \<or> dtype \<lparr>dtype = Object, cells = [Str (U ''a''), Str (U ''a''), Str (U ''a'')], categories = []\<rparr>
              = Category"
    by simp
  have 9: "groupby_dropna ref_lib df_one_group (U ''g'') (U ''x'') = Inr [[1, 2, 3]]"
    by code_simp
  have 10: "length [[1, 2, 3 :: real]] < 2"
    by simp
  have 11: "q_diff \<in> set (generate_questions ref_lib df_one_group 5)"
    by code_simp
  from too_few_groups_message [OF 1 2 3 4 5 6 7 8 9 10 11] 9 show ?thesis
    by simp
qed

text \<open>
  C1, as stated, fails on a table with a single category: the question is not
  skipped, it gets the message as its answer.
\<close>

theorem too_few_groups_entry:
  "groupby_dropna ref_lib df_one_group (U ''g'') (U ''x'') = Inr [[1, 2, 3]] \<and>
   answer_questions ref_lib df_one_group [q_diff] (5 / 100)
     = [(q_diff, U ''Not enough groups for hypothesis testing.'')]"
  by code_simp

section \<open>Quoted column names\<close>

lemma of_char_quote: "(of_char c :: int) = 39 \<longleftrightarrow> c = CHR 0x27"
proof -
  have "(of_char c :: int) = of_char (CHR 0x27) \<longleftrightarrow> c = CHR 0x27"
    by (rule of_char_eq_iff)
  then show ?thesis
    by simp
qed

lemma quote_in_U [simp]: "quote \<in> set (U s) \<longleftrightarrow> CHR 0x27 \<in> set s"
  by (induction s) (auto simp: U_def quote_def of_char_quote)

lemma U_Nil_iff [simp]: "U s = [] \<longleftrightarrow> s = []"
  by (simp add: U_def)

lemma quote_in_str_nat [simp]: "quote \<notin> set (str_nat n)"
proof (induction n rule: str_nat.induct)
  case (1 n)
  show ?case
  proof (cases "n < 10")
    case True
    then show ?thesis
      by (subst str_nat.simps) (simp add: quote_def)
  next
    case False
    have "48 + int (n mod 10) \<noteq> 39"
      by simp
    with False 1 show ?thesis
      by (subst str_nat.simps) (simp add: quote_def)
  qed
qed

lemma special_not_quote [simp]:
  "e_acute \<noteq> quote" "rsquo \<noteq> quote" "em_dash \<noteq> quote"
  "quote \<noteq> e_acute" "quote \<noteq> rsquo" "quote \<noteq> em_dash"
  by (simp_all add: e_acute_def rsquo_def em_dash_def quote_def)

lemma format_ok_ref_lib: "format_ok ref_lib"
proof -
  have "quote \<noteq> 48"
    by (simp add: quote_def)
  then have "quote \<notin> set (fmt_fixed n x)" for n x
    by (cases x) (auto simp: fmt_fixed_def Let_def)
  then show ?thesis
    by (simp add: format_ok_def ref_lib_simps)
qed

lemma extract_none: "quote \<notin> set s \<Longrightarrow> extract_columns_from_question s = []"
  by (induction s) (simp_all add: extract_columns_from_question.simps)

lemma extract_skip:
  "quote \<notin> set pre \<Longrightarrow>
     extract_columns_from_question (pre @ s) = extract_columns_from_question s"
  by (induction pre) (simp_all add: extract_columns_from_question.simps)

lemma extract_open:
  assumes "name \<noteq> []" and "quote \<notin> set name"
  shows "extract_columns_from_question (quote # name @ quote # rest)
           = name # extract_columns_from_question rest"
proof -
  have "\<And>x. x \<in> set name \<Longrightarrow> x \<noteq> quote"
    using assms(2) by blast
  then have "takeWhile (\<lambda>x. x \<noteq> quote) (name @ quote # rest) = name"
    and "dropWhile (\<lambda>x. x \<noteq> quote) (name @ quote # rest) = quote # rest"
    by (simp_all add: takeWhile_append2 dropWhile_append2)
  with assms(1) show ?thesis
    by (simp add: extract_columns_from_question.simps)
qed

lemmas extract_simps = extract_skip extract_open extract_none

lemma extract_render:
  assumes "format_ok L"
    and "\<forall>c \<in> set (quoted_columns item). c \<noteq> [] \<and> quote \<notin> set c"
    and "words_ok item"
  shows "extract_columns_from_question (render L item) = quoted_columns item"
proof -
  have f: "quote \<notin> set (format_f L n x)" for n x
    using assms(1) by (simp add: format_ok_def)
  show ?thesis
  proof (cases item)
    case (QCorr strength name corr col1 col2)
    with assms(3) have "quote \<notin> set strength" "quote \<notin> set name"
      by auto
    with QCorr assms(2) f show ?thesis
      by (simp add: extract_simps)
  next
    case (QSkew col s)
    with assms(2) f show ?thesis
      by (simp add: extract_simps)
  next
    case (QKurt col k)
    with assms(2) f show ?thesis
      by (simp add: extract_simps)
  next
    case (QDiff cat num)
    with assms(2) show ?thesis
      by (simp add: extract_simps)
  next
    case (QAssoc cat1 cat2)
    with assms(2) show ?thesis
      by (simp add: extract_simps)
  next
    case (QSeason col)
    with assms(2) show ?thesis
      by (simp add: extract_simps)
  next
    case (QTrend num col)
    with assms(2) show ?thesis
      by (simp add: extract_simps)
  next
    case (QOutlier k col)
    with assms(2) show ?thesis
      by (simp add: extract_simps)
  next
    case (QMissing pct col)
    with assms(2) f show ?thesis
      by (simp add: extract_simps)
  next
    case QDuplicate
    then show ?thesis
      by (simp add: extract_simps)
  qed
qed

lemma extract_trend:
  assumes "num \<noteq> []" and "quote \<notin> set num" and "col \<noteq> []" and "quote \<notin> set col"
  shows "extract_columns_from_question (render L (QTrend num col)) = [num, col]"
  using assms by (simp add: extract_simps)

section \<open>The columns a generated question names\<close>

lemma in_pairs: "(a, b) \<in> set (pairs xs) \<Longrightarrow> a \<in> set xs \<and> b \<in> set xs"
  by (induction xs) auto

lemma selected_names:
  "(n, c) \<in> set (numeric_cols df) \<Longrightarrow> n \<in> fst ` set df"
  "(n, c) \<in> set (cat_cols df) \<Longrightarrow> n \<in> fst ` set df"
  "(n, c) \<in> set (datetime_cols df) \<Longrightarrow> n \<in> fst ` set df"
  by (force simp: numeric_cols_def cat_cols_def datetime_cols_def)+

lemma corr_item_sound:
  assumes "pr \<in> set (pairs (numeric_cols df))"
  shows "set (quoted_columns (corr_item L pr)) \<subseteq> fst ` set df \<and> words_ok (corr_item L pr)"
proof -
  obtain n1 c1 n2 c2 where pr: "pr = ((n1, c1), (n2, c2))"
    by (cases pr rule: prod.exhaust [where 'a = "pystr \<times> column"]) auto
  with assms have "(n1, c1) \<in> set (numeric_cols df)" and "(n2, c2) \<in> set (numeric_cols df)"
    using in_pairs [of "(n1, c1)" "(n2, c2)" "numeric_cols df"] by auto
  then have "n1 \<in> fst ` set df" and "n2 \<in> fst ` set df"
    by (auto intro: selected_names)
  then show ?thesis
    by (simp add: pr corr_item_def Let_def corr_method_def)
qed

lemma corr_questions_sound:
  assumes "item \<in> set (corr_questions L df m)"
  shows "set (quoted_columns item) \<subseteq> fst ` set df \<and> words_ok item"
proof -
  from assms obtain pr where "pr \<in> set (pairs (numeric_cols df))" and "item = corr_item L pr"
    unfolding corr_questions_eq by (auto dest!: in_set_takeD)
  then show ?thesis
    using corr_item_sound by blast
qed

lemma distribution_questions_sound:
  "item \<in> set (distribution_questions L df) \<Longrightarrow>
     set (quoted_columns item) \<subseteq> fst ` set df \<and> words_ok item"
  by (auto simp: distribution_questions_def split: if_splits intro: selected_names)

lemma difference_questions_sound:
  "item \<in> set (difference_questions df) \<Longrightarrow>
     set (quoted_columns item) \<subseteq> fst ` set df \<and> words_ok item"
  by (auto simp: difference_questions_def split: if_splits intro: selected_names)

lemma association_questions_sound:
  "item \<in> set (association_questions df) \<Longrightarrow>
     set (quoted_columns item) \<subseteq> fst ` set df \<and> words_ok item"
  by (auto simp: association_questions_def split: if_splits dest!: in_pairs
           intro: selected_names)

lemma time_questions_sound:
  "item \<in> set (time_questions df) \<Longrightarrow>
     set (quoted_columns item) \<subseteq> fst ` set df \<and> words_ok item"
  by (auto simp: time_questions_def intro: selected_names)

lemma outlier_questions_sound:
  "item \<in> set (outlier_questions L df) \<Longrightarrow>
     set (quoted_columns item) \<subseteq> fst ` set df \<and> words_ok item"
  by (auto simp: outlier_questions_def split: if_splits intro: selected_names)

lemma missing_questions_sound:
  "item \<in> set (missing_questions df) \<Longrightarrow>
     set (quoted_columns item) \<subseteq> fst ` set df \<and> words_ok item"
  by (force simp: missing_questions_def split: if_splits)

lemma duplicate_questions_sound:
  "item \<in> set (duplicate_questions df) \<Longrightarrow>
     set (quoted_columns item) \<subseteq> fst ` set df \<and> words_ok item"
  by (auto simp: duplicate_questions_def split: if_splits)

lemma question_items_sound:
  assumes "item \<in> set (question_items L df m)"
  shows "set (quoted_columns item) \<subseteq> fst ` set df \<and> words_ok item"
proof -
  from assms consider
      "item \<in> set (corr_questions L df m)"
    | "item \<in> set (distribution_questions L df)"
    | "item \<in> set (difference_questions df)"
    | "item \<in> set (association_questions df)"
    | "item \<in> set (time_questions df)"
    | "item \<in> set (outlier_questions L df)"
    | "item \<in> set (missing_questions df)"
    | "item \<in> set (duplicate_questions df)"
    by (auto simp: question_items_def)
  then show ?thesis
  proof cases
    case 1
    then show ?thesis by (rule corr_questions_sound)
  next
    case 2
    then show ?thesis by (rule distribution_questions_sound)
  next
    case 3
    then show ?thesis by (rule difference_questions_sound)
  next
    case 4
    then show ?thesis by (rule association_questions_sound)
  next
    case 5
    then show ?thesis by (rule time_questions_sound)
  next
    case 6
    then show ?thesis by (rule outlier_questions_sound)
  next
    case 7
    then show ?thesis by (rule missing_questions_sound)
  next
    case 8
    then show ?thesis by (rule duplicate_questions_sound)
  qed
qed

text \<open>
  C7, as amended. Let no column name of the table be empty or hold a single quote
  (and let a formatted number hold none). Then every generated question comes from
  a rule whose columns are columns of the table, and
  \<open>extract_columns_from_question\<close> gives back exactly the column names the question
  quotes, in their order.
\<close>

theorem questions_round_trip:
  assumes "format_ok L"
    and "\<forall>name \<in> set (map fst df). name \<noteq> [] \<and> quote \<notin> set name"
    and "q \<in> set (generate_questions L df m)"
  shows "\<exists>item \<in> set (question_items L df m).
           q = render L item \<and>
           set (quoted_columns item) \<subseteq> set (map fst df) \<and>
           extract_columns_from_question q = quoted_columns item"
proof -
  from assms(3) obtain item where item: "item \<in> set (question_items L df m)"
    and q: "q = render L item"
    by (auto simp: generate_questions_def)
  from item have s: "set (quoted_columns item) \<subseteq> fst ` set df" and w: "words_ok item"
    using question_items_sound by blast+
  from s assms(2) have "\<forall>c \<in> set (quoted_columns item). c \<noteq> [] \<and> quote \<notin> set c"
    by fastforce
  with assms(1) w have "extract_columns_from_question (render L item) = quoted_columns item"
    by (simp add: extract_render)
  with item q s show ?thesis
    by auto
qed

theorem questions_round_trip_witness:
  "format_ok ref_lib \<and>
   question_items ref_lib df_two_groups 5 = [QDiff (U ''g'') (U ''x'')] \<and>
   q_diff \<in> set (generate_questions ref_lib df_two_groups 5) \<and>
   extract_columns_from_question q_diff = [U ''g'', U ''x'']"
proof -
  have names: "\<forall>name \<in> set (map fst df_two_groups). name \<noteq> [] \<and> quote \<notin> set name"
    by (simp add: df_two_groups_def)
  have items: "question_items ref_lib df_two_groups 5 = [QDiff (U ''g'') (U ''x'')]"
    by code_simp
  have q: "q_diff \<in> set (generate_questions ref_lib df_two_groups 5)"
    by (simp add: generate_questions_def items q_diff_def)
  from questions_round_trip [OF format_ok_ref_lib names q]
  have "extract_columns_from_question q_diff = [U ''g'', U ''x'']"
    by (simp add: items)
  with format_ok_ref_lib items q show ?thesis
    by simp
qed

text \<open>
  C7, as stated, fails on a table with a column whose name is the empty string: the
  name holds no single quote, and the two quotes around it close nothing, so the
  text between them and the next quote is taken for a column name.
\<close>

theorem empty_name_not_recovered:
  "quote \<notin> set (concat (map fst df_empty_name)) \<and>
   generate_questions ref_lib df_empty_name 5 = [render ref_lib (QDiff [] (U ''x''))] \<and>
   quoted_columns (QDiff [] (U ''x'')) = [[], U ''x''] \<and>
   extract_columns_from_question (render ref_lib (QDiff [] (U ''x'')))
     = [U '' categories show significant differences in '']"
  by code_simp

section \<open>The trend question about a numeric column\<close>

lemma getitem_member:
  "distinct (map fst df) \<Longrightarrow> (name, c) \<in> set df \<Longrightarrow> getitem df name = Inr c"
  by (simp add: getitem_def)

lemma trend_word: "sublist (U ''trend'') (render L (QTrend num col))"
proof -
  have "render L (QTrend num col) =
      (U ''Does '' @ [quote] @ num @ [quote] @ U '' change significantly over time based on ''
         @ [quote] @ col @ [quote] @ U '' ('')
      @ U ''trend'' @ U '' analysis, Mann-Kendall test)?''"
    by (simp add: U_def)
  then show ?thesis
    unfolding sublist_def by blast
qed

text \<open>
  C10, as amended. Let the table have unique column names, a numeric column and a
  datetime column, both with names that are not empty and hold no single quote.
  The generator asks the question
  \<^verbatim>\<open>Does '<num>' change significantly over time based on '<col>' (trend analysis, Mann-Kendall test)?\<close>
  about them; it has the word \<^verbatim>\<open>trend\<close> and quotes the two names. If its lowercase
  text does not contain \<^verbatim>\<open>duplicate\<close>, the question gets no entry in the answers.
\<close>

theorem trend_question_skipped:
  assumes "distinct (map fst df)"
    and "(num, n) \<in> set df" and "dtype n = Number"
    and "(col, c) \<in> set df" and "dtype c = Datetime"
    and "num \<noteq> []" and "quote \<notin> set num" and "col \<noteq> []" and "quote \<notin> set col"
    and "\<not> sublist (U ''duplicate'') (py_lower L (render L (QTrend num col)))"
  shows "QTrend num col \<in> set (question_items L df m) \<and>
         sublist (U ''trend'') (render L (QTrend num col)) \<and>
         extract_columns_from_question (render L (QTrend num col)) = [num, col] \<and>
         answer_one L df alpha (render L (QTrend num col)) = Inr None \<and>
         map_of (answer_questions L df questions alpha) (render L (QTrend num col)) = None"
proof -
  have emitted: "QTrend num col \<in> set (question_items L df m)"
    using assms(2-5)
    by (force simp: question_items_def time_questions_def numeric_cols_def datetime_cols_def)
  have cols: "extract_columns_from_question (render L (QTrend num col)) = [num, col]"
    using assms(6-9) by (rule extract_trend)
  have gn: "getitem df num = Inr n" and gc: "getitem df col = Inr c"
    using assms(1,2,4) by (simp_all add: getitem_member)
  have "all_numeric df [num, col] = Inr False"
    using gn gc assms(3,5) by (simp add: is_numeric_dtype_def)
  then have corr: "answer_correlation L df alpha [num, col] = Inr None"
    by (simp add: answer_correlation_def)
  have diff: "answer_different L df alpha num col = Inr None"
    using gc assms(5) by (simp add: answer_different_def is_numeric_dtype_def)
  have assoc: "answer_association L df alpha num col = Inr None"
    using gn assms(3) by (simp add: answer_association_def is_categorical_dtype_def)
  have one: "answer_one L df alpha (render L (QTrend num col)) = Inr None"
    unfolding answer_one_def Let_def cols
    using assms(10) corr diff assoc by simp
  then have "map_of (answer_questions L df questions alpha) (render L (QTrend num col)) = None"
    by (simp add: answer_questions_lookup entry_of_def)
  with emitted trend_word cols one show ?thesis
    by simp
qed

theorem trend_question_skipped_witness:
  "QTrend (U ''sales'') (U ''date'') \<in> set (question_items ref_lib df_sales 5) \<and>
   \<not> sublist (U ''duplicate'') (py_lower ref_lib (render ref_lib (QTrend (U ''sales'') (U ''date'')))) \<and>
   map_of (answer_questions ref_lib df_sales (generate_questions ref_lib df_sales 5) (5 / 100))
     (render ref_lib (QTrend (U ''sales'') (U ''date''))) = None"
proof -
  have 1: "distinct (map fst df_sales)"
    by (simp add: df_sales_def)
  have 2: "(U ''sales'', \<lparr>dtype = Number, cells = [Num 10, Num 20], categories = []\<rparr>) \<in> set df_sales"
    by (simp add: df_sales_def)
  have 3: "dtype \<lparr>dtype = Number, cells = [Num 10, Num 20], categories = []\<rparr> = Number"
    by simp
  have 4: "(U ''date'', \<lparr>dtype = Datetime, cells = [Stamp 0, Stamp 1], categories = []\<rparr>) \<in> set df_sales"
    by (simp add: df_sales_def)
  have 5: "dtype \<lparr>dtype = Datetime, cells = [Stamp 0, Stamp 1], categories = []\<rparr> = Datetime"
    by simp
  have 6: "U ''sales'' \<noteq> []" and 7: "quote \<notin> set (U ''sales'')"
    and 8: "U ''date'' \<noteq> []" and 9: "quote \<notin> set (U ''date'')"
    by simp_all
  have 10: "\<not> sublist (U ''duplicate'')
              (py_lower ref_lib (render ref_lib (QTrend (U ''sales'') (U ''date''))))"
    by code_simp
  from trend_question_skipped [OF 1 2 3 4 5 6 7 8 9 10] 10 show ?thesis
    by blast
qed

text \<open>
  C10, as stated, fails when a column name holds the word \<^verbatim>\<open>duplicate\<close>: the
  duplicate branch asks for no number of quoted columns and answers the question.
\<close>

theorem trend_question_answered:
  "QTrend (U ''duplicates'') (U ''date'') \<in> set (question_items ref_lib df_duplicates 5) \<and>
   map_of (answer_questions ref_lib df_duplicates (generate_questions ref_lib df_duplicates 5)
             (5 / 100))
     (render ref_lib (QTrend (U ''duplicates'') (U ''date'')))
     = Some (U ''Dataset contains 0 duplicate rows.'')"
  by code_simp

end
